theory Spec2Isabelle
  imports Main "HOL-Library.AList" "HOL-Library.Char_ord" "HOL-Library.List_Lexorder"
begin

section \<open>Python values\<close>

text \<open>
  The records handled by the service are Python dictionaries from string keys to JSON-like
  values. Floating point numbers are left out of the value universe; strings are ASCII
  text. A dictionary is an association list in insertion order; a well-formed dictionary
  has distinct keys and \<open>map_of\<close> reads it.
\<close>

datatype pyval =
    PNone
  | PBool bool
  | PInt int
  | PStr string
  | PList "pyval list"
  | PDict "(string \<times> pyval) list"

type_synonym pydict = "(string \<times> pyval) list"

text \<open>The exceptions the modelled code can raise; all are subclasses of \<open>Exception\<close>.\<close>

datatype exn =
    TypeError
  | AttributeError
  | ValueError string
  | KeyError string
  | UnicodeEncodeError
  | OtherError string

text \<open>Truthiness, as tested by \<open>if x\<close> and \<open>if not x\<close>.\<close>

fun truthy :: "pyval \<Rightarrow> bool" where
  "truthy PNone = False"
| "truthy (PBool b) = b"
| "truthy (PInt i) = (i \<noteq> 0)"
| "truthy (PStr s) = (s \<noteq> [])"
| "truthy (PList xs) = (xs \<noteq> [])"
| "truthy (PDict d) = (d \<noteq> [])"

text \<open>\<open>d.get(k)\<close> and \<open>d.get(k, default)\<close>.\<close>

definition dget :: "pydict \<Rightarrow> string \<Rightarrow> pyval" where
  "dget d k = (case map_of d k of None \<Rightarrow> PNone | Some v \<Rightarrow> v)"

definition dget_default :: "pydict \<Rightarrow> string \<Rightarrow> pyval \<Rightarrow> pyval" where
  "dget_default d k dflt = (case map_of d k of None \<Rightarrow> dflt | Some v \<Rightarrow> v)"

text \<open>
  A dictionary display \<open>{k1: v1, k2: v2, ...}\<close> is evaluated left to right; a repeated
  key keeps its first position and takes the last value. \<open>d.update(new)\<close> does the same
  starting from \<open>d\<close>.
\<close>

definition dict_update :: "pydict \<Rightarrow> pydict \<Rightarrow> pydict" where
  "dict_update d new = foldl (\<lambda>acc (k, v). AList.update k v acc) d new"

definition py_dict :: "pydict \<Rightarrow> pydict" where
  "py_dict entries = dict_update [] entries"

text \<open>
  Dictionary and set keys are compared by hash and equality: \<open>True == 1\<close> and
  \<open>False == 0\<close>, lists and dictionaries are unhashable (\<open>TypeError\<close>).
\<close>

datatype pykey = KNone | KInt int | KStr string

fun py_key :: "pyval \<Rightarrow> exn + pykey" where
  "py_key PNone = Inr KNone"
| "py_key (PBool b) = Inr (KInt (if b then 1 else 0))"
| "py_key (PInt i) = Inr (KInt i)"
| "py_key (PStr s) = Inr (KStr s)"
| "py_key (PList xs) = Inl TypeError"
| "py_key (PDict d) = Inl TypeError"

text \<open>
  \<open>str.strip()\<close> and \<open>str.upper()\<close> on ASCII text: the characters of a string are code
  points below 128. Python also strips the blanks and upper-cases the letters above 127;
  such characters are outside the model.
\<close>

definition py_isspace :: "char \<Rightarrow> bool" where
  "py_isspace c = ((of_char c :: nat) \<in> {9, 10, 11, 12, 13, 28, 29, 30, 31, 32})"

definition py_strip :: "string \<Rightarrow> string" where
  "py_strip s = rev (dropWhile py_isspace (rev (dropWhile py_isspace s)))"

definition py_upper :: "string \<Rightarrow> string" where
  "py_upper s =
     map (\<lambda>c. if 97 \<le> (of_char c :: nat) \<and> (of_char c :: nat) \<le> 122
               then char_of ((of_char c :: nat) - 32) else c) s"

text \<open>
  \<open>x.strip().upper()\<close> on a value: only strings have the method, every other value
  raises \<open>AttributeError\<close>.
\<close>

fun strip_upper :: "pyval \<Rightarrow> exn + string" where
  "strip_upper (PStr s) = Inr (py_upper (py_strip s))"
| "strip_upper v = Inl AttributeError"

text \<open>A \<open>for\<close> loop whose body may raise: the first exception leaves the loop.\<close>

fun run_loop :: "('s \<Rightarrow> 'a \<Rightarrow> exn + 's) \<Rightarrow> 's \<Rightarrow> 'a list \<Rightarrow> exn + 's" where
  "run_loop body s [] = Inr s"
| "run_loop body s (x # xs) =
     (case body s x of Inl e \<Rightarrow> Inl e | Inr s' \<Rightarrow> run_loop body s' xs)"

section \<open>The reconciliation engine: \<open>merge_organization_records\<close> (app/api/routes.py)\<close>

record merge_stats =
  total_abn_records :: nat
  total_acnc_records :: nat
  total_nsw_records :: nat
  merged_records :: nat
  abn_only :: nat
  acnc_only :: nat
  nsw_only :: nat
  abn_acnc_matches :: nat
  acnc_nsw_matches :: nat
  all_source_matches :: nat

text \<open>
  The local variables the three loops mutate: the list \<open>merged_records\<close> (field
  \<open>merged\<close>), the dictionary \<open>stats\<close>, and the sets \<open>processed_abns\<close> and
  \<open>processed_nsw_names\<close>.
\<close>

record merge_state =
  merged :: "pydict list"
  stats :: merge_stats
  processed_abns :: "pykey set"
  processed_nsw_names :: "string set"

text \<open>
  The lookups of lines 200 to 209. A later record with the same key overwrites an
  earlier one.
\<close>

definition by_abn_step :: "(pykey \<rightharpoonup> pydict) \<Rightarrow> pydict \<Rightarrow> exn + (pykey \<rightharpoonup> pydict)" where
  "by_abn_step m record =
     (if truthy (dget record ''abn'')
      then (case py_key (dget record ''abn'') of
              Inl e \<Rightarrow> Inl e
            | Inr k \<Rightarrow> Inr (m(k \<mapsto> record)))
      else Inr m)"

definition by_name_step :: "(string \<rightharpoonup> pydict) \<Rightarrow> pydict \<Rightarrow> exn + (string \<rightharpoonup> pydict)" where
  "by_name_step m record =
     (if truthy (dget record ''name'')
      then (case strip_upper (dget record ''name'') of
              Inl e \<Rightarrow> Inl e
            | Inr clean_name \<Rightarrow> Inr (m(clean_name \<mapsto> record)))
      else Inr m)"

text \<open>
  The dictionary displays of the function, in the order of the source. \<open>ts\<close> is the
  value of \<open>datetime.now().isoformat()\<close> read when the display is evaluated.
\<close>

definition abn_merged_record :: "pydict \<Rightarrow> string \<Rightarrow> pydict" where
  "abn_merged_record abn_record ts =
    [(''abn'', dget abn_record ''abn''),
     (''is_current'', dget abn_record ''is_current''),
     (''replaced_from'', dget abn_record ''replaced_from''),
     (''entity_status'', dget abn_record ''entity_status''),
     (''effective_from'', dget abn_record ''effective_from''),
     (''effective_to'', dget abn_record ''effective_to''),
     (''entity_type_code'', dget abn_record ''entity_type_code''),
     (''entity_type_description'', dget abn_record ''entity_type_description''),
     (''anc_status'', dget abn_record ''anc_status''),
     (''acnc_status_from'', dget abn_record ''acnc_status_from''),
     (''acnc_status_to'', dget abn_record ''acnc_status_to''),
     (''record_last_updated'', dget abn_record ''record_last_updated''),
     (''gst'', dget abn_record ''gst''),
     (''dgr'', dget abn_record ''dgr''),
     (''main_trading_names'', dget abn_record ''main_trading_names''),
     (''other_trading_names'', dget abn_record ''other_trading_names''),
     (''main_business_physical_address'', dget abn_record ''main_business_physical_address''),
     (''tax_concession_endorsements'', dget abn_record ''tax_concession_endorsements''),
     (''legal_name'', PNone),
     (''other_organisation_names'', PNone),
     (''charity_website'', PNone),
     (''date_organisation_established'', PNone),
     (''registration_date'', PNone),
     (''charity_size'', PNone),
     (''number_of_responsible_persons'', PNone),
     (''financial_year_end'', PNone),
     (''operates_in'', PNone),
     (''areas_of_interest'', PNone),
     (''acnc_address'', PNone),
     (''nsw_organisation_number'', PNone),
     (''nsw_name'', PNone),
     (''nsw_organisation_type'', PNone),
     (''nsw_status'', PNone),
     (''nsw_date_registered'', PNone),
     (''nsw_date_removed'', PNone),
     (''nsw_registered_office_address'', PNone),
     (''nsw_organisation_id'', PNone),
     (''sources'', PList [PStr ''abn'']),
     (''updated_at'', PStr ts)]"

definition acnc_fields :: "pydict \<Rightarrow> pydict" where
  "acnc_fields acnc_record =
    [(''legal_name'', dget acnc_record ''legal_name''),
     (''other_organisation_names'', dget acnc_record ''other_organisation_names''),
     (''charity_website'', dget acnc_record ''charity_wbsite''),
     (''date_organisation_established'', dget acnc_record ''date_organisation_established''),
     (''registration_date'', dget acnc_record ''registration_date''),
     (''charity_size'', dget acnc_record ''charity_size''),
     (''number_of_responsible_persons'', dget acnc_record ''number_of_responsible_persons''),
     (''financial_year_end'', dget acnc_record ''finacial_year_end''),
     (''operates_in'', dget acnc_record ''operates_in''),
     (''areas_of_interest'', dget acnc_record ''areas_of_interest''),
     (''acnc_address'', dget acnc_record ''address'')]"

definition nsw_fields :: "pydict \<Rightarrow> pydict" where
  "nsw_fields nsw_record =
    [(''nsw_organisation_number'', dget nsw_record ''organisation_number''),
     (''nsw_name'', dget nsw_record ''name''),
     (''nsw_organisation_type'', dget nsw_record ''organisation_type''),
     (''nsw_status'', dget nsw_record ''status''),
     (''nsw_date_registered'', dget nsw_record ''date_registered''),
     (''nsw_date_removed'', dget nsw_record ''date_removed''),
     (''nsw_registered_office_address'', dget nsw_record ''registered_office_address''),
     (''nsw_organisation_id'', dget nsw_record ''organisation_id'')]"

definition acnc_merged_record :: "pyval \<Rightarrow> pydict \<Rightarrow> string \<Rightarrow> pydict" where
  "acnc_merged_record abn acnc_record ts =
    [(''abn'', abn),
     (''is_current'', PNone),
     (''replaced_from'', PNone),
     (''entity_status'', PNone),
     (''effective_from'', PNone),
     (''effective_to'', PNone),
     (''entity_type_code'', PNone),
     (''entity_type_description'', PNone),
     (''anc_status'', PNone),
     (''acnc_status_from'', PNone),
     (''acnc_status_to'', PNone),
     (''record_last_updated'', PNone),
     (''gst'', PNone),
     (''dgr'', PNone),
     (''main_trading_names'', PNone),
     (''other_trading_names'', PNone),
     (''main_business_physical_address'', PNone),
     (''tax_concession_endorsements'', PNone),
     (''legal_name'', dget acnc_record ''legal_name''),
     (''other_organisation_names'', dget acnc_record ''other_organisation_names''),
     (''charity_website'', dget acnc_record ''charity_wbsite''),
     (''date_organisation_established'', dget acnc_record ''date_organisation_established''),
     (''registration_date'', dget acnc_record ''registration_date''),
     (''charity_size'', dget acnc_record ''charity_size''),
     (''number_of_responsible_persons'', dget acnc_record ''number_of_responsible_persons''),
     (''financial_year_end'', dget acnc_record ''finacial_year_end''),
     (''operates_in'', dget acnc_record ''operates_in''),
     (''areas_of_interest'', dget acnc_record ''areas_of_interest''),
     (''acnc_address'', dget acnc_record ''address''),
     (''nsw_organisation_number'', PNone),
     (''nsw_name'', PNone),
     (''nsw_organisation_type'', PNone),
     (''nsw_status'', PNone),
     (''nsw_date_registered'', PNone),
     (''nsw_date_removed'', PNone),
     (''nsw_registered_office_address'', PNone),
     (''nsw_organisation_id'', PNone),
     (''sources'', PList [PStr ''acnc'']),
     (''updated_at'', PStr ts)]"

definition nsw_merged_record :: "pydict \<Rightarrow> string \<Rightarrow> pydict" where
  "nsw_merged_record nsw_record ts =
    [(''abn'', PNone),
     (''is_current'', PNone),
     (''replaced_from'', PNone),
     (''entity_status'', PNone),
     (''effective_from'', PNone),
     (''effective_to'', PNone),
     (''entity_type_code'', PNone),
     (''entity_type_description'', PNone),
     (''anc_status'', PNone),
     (''acnc_status_from'', PNone),
     (''acnc_status_to'', PNone),
     (''record_last_updated'', PNone),
     (''gst'', PNone),
     (''dgr'', PNone),
     (''main_trading_names'', PNone),
     (''other_trading_names'', PNone),
     (''main_business_physical_address'', PNone),
     (''tax_concession_endorsements'', PNone),
     (''legal_name'', PNone),
     (''other_organisation_names'', PNone),
     (''charity_website'', PNone),
     (''date_organisation_established'', PNone),
     (''registration_date'', PNone),
     (''charity_size'', PNone),
     (''number_of_responsible_persons'', PNone),
     (''financial_year_end'', PNone),
     (''operates_in'', PNone),
     (''areas_of_interest'', PNone),
     (''acnc_address'', PNone),
     (''nsw_organisation_number'', dget nsw_record ''organisation_number''),
     (''nsw_name'', dget nsw_record ''name''),
     (''nsw_organisation_type'', dget nsw_record ''organisation_type''),
     (''nsw_status'', dget nsw_record ''status''),
     (''nsw_date_registered'', dget nsw_record ''date_registered''),
     (''nsw_date_removed'', dget nsw_record ''date_removed''),
     (''nsw_registered_office_address'', dget nsw_record ''registered_office_address''),
     (''nsw_organisation_id'', dget nsw_record ''organisation_id''),
     (''sources'', PList [PStr ''nsw'']),
     (''updated_at'', PStr ts)]"

text \<open>\<open>merged_record['sources'].append(source)\<close>; the key always holds a list.\<close>

definition sources_append :: "pydict \<Rightarrow> string \<Rightarrow> pydict" where
  "sources_append merged_record source =
     AList.update ''sources''
       (case dget merged_record ''sources'' of
          PList xs \<Rightarrow> PList (xs @ [PStr source])
        | v \<Rightarrow> v)
       merged_record"

text \<open>Lines 317 to 323: the counters of the primary-seeded pass, then the append.\<close>

definition abn_finish :: "merge_state \<Rightarrow> pydict \<Rightarrow> bool \<Rightarrow> bool \<Rightarrow> merge_state" where
  "abn_finish st merged_record has_acnc_match has_nsw_match =
     (let s = stats st;
          s' = (if has_acnc_match \<and> has_nsw_match
                then s\<lparr>all_source_matches := all_source_matches s + 1\<rparr>
                else if \<not> has_acnc_match \<and> \<not> has_nsw_match
                then s\<lparr>abn_only := abn_only s + 1\<rparr>
                else s)
      in st\<lparr>stats := s', merged := merged st @ [merged_record]\<rparr>)"

text \<open>
  The body of the first loop (lines 216 to 323). \<open>now n\<close> is the clock reading taken
  for the record created when \<open>n\<close> records have been created before it.
\<close>

definition abn_step ::
  "(pykey \<rightharpoonup> pydict) \<Rightarrow> (string \<rightharpoonup> pydict) \<Rightarrow> (nat \<Rightarrow> string) \<Rightarrow>
   merge_state \<Rightarrow> pydict \<Rightarrow> exn + merge_state" where
  "abn_step acnc_by_abn nsw_by_name now st abn_record =
    (let abn = dget abn_record ''abn'' in
     if \<not> truthy abn then Inr st
     else case py_key abn of
       Inl e \<Rightarrow> Inl e
     | Inr k \<Rightarrow>
        if k \<in> processed_abns st then Inr st
        else
          let st1 = st\<lparr>processed_abns := insert k (processed_abns st)\<rparr>;
              merged_record = abn_merged_record abn_record (now (length (merged st)))
          in (case acnc_by_abn k of
                None \<Rightarrow> Inr (abn_finish st1 merged_record False False)
              | Some acnc_record \<Rightarrow>
                  let merged_record1 =
                        sources_append (dict_update merged_record (acnc_fields acnc_record)) ''acnc'';
                      st2 = st1\<lparr>stats := (stats st1)\<lparr>abn_acnc_matches :=
                                abn_acnc_matches (stats st1) + 1\<rparr>\<rparr>;
                      legal_name = dget acnc_record ''legal_name''
                  in if truthy legal_name
                     then (case strip_upper legal_name of
                             Inl e \<Rightarrow> Inl e
                           | Inr clean_legal_name \<Rightarrow>
                              (case nsw_by_name clean_legal_name of
                                 None \<Rightarrow> Inr (abn_finish st2 merged_record1 True False)
                               | Some nsw_record \<Rightarrow>
                                  let merged_record2 =
                                        sources_append
                                          (dict_update merged_record1 (nsw_fields nsw_record)) ''nsw'';
                                      st3 = st2\<lparr>processed_nsw_names :=
                                                insert clean_legal_name (processed_nsw_names st2),
                                              stats := (stats st2)\<lparr>acnc_nsw_matches :=
                                                acnc_nsw_matches (stats st2) + 1\<rparr>\<rparr>
                                  in Inr (abn_finish st3 merged_record2 True True)))
                     else Inr (abn_finish st2 merged_record1 True False)))"

text \<open>The body of the second loop (lines 326 to 405).\<close>

definition acnc_step ::
  "(string \<rightharpoonup> pydict) \<Rightarrow> (nat \<Rightarrow> string) \<Rightarrow> merge_state \<Rightarrow> pydict \<Rightarrow> exn + merge_state" where
  "acnc_step nsw_by_name now st acnc_record =
    (let abn = dget acnc_record ''abn'' in
     if \<not> truthy abn then Inr st
     else case py_key abn of
       Inl e \<Rightarrow> Inl e
     | Inr k \<Rightarrow>
        if k \<in> processed_abns st then Inr st
        else
          let merged_record = acnc_merged_record abn acnc_record (now (length (merged st)));
              legal_name = dget acnc_record ''legal_name'';
              acnc_only_st = st\<lparr>stats := (stats st)\<lparr>acnc_only := acnc_only (stats st) + 1\<rparr>\<rparr>
          in if truthy legal_name
             then (case strip_upper legal_name of
                     Inl e \<Rightarrow> Inl e
                   | Inr clean_legal_name \<Rightarrow>
                      (case nsw_by_name clean_legal_name of
                         Some nsw_record \<Rightarrow>
                           if clean_legal_name \<notin> processed_nsw_names st
                           then
                             let merged_record1 =
                                   sources_append
                                     (dict_update merged_record (nsw_fields nsw_record)) ''nsw'';
                                 st1 = st\<lparr>processed_nsw_names :=
                                           insert clean_legal_name (processed_nsw_names st),
                                         stats := (stats st)\<lparr>acnc_nsw_matches :=
                                           acnc_nsw_matches (stats st) + 1\<rparr>\<rparr>
                             in Inr (st1\<lparr>merged := merged st1 @ [merged_record1]\<rparr>)
                           else Inr (acnc_only_st\<lparr>merged := merged st @ [merged_record]\<rparr>)
                       | None \<Rightarrow> Inr (acnc_only_st\<lparr>merged := merged st @ [merged_record]\<rparr>)))
             else Inr (acnc_only_st\<lparr>merged := merged st @ [merged_record]\<rparr>))"

text \<open>The body of the third loop (lines 408 to 468).\<close>

definition nsw_step :: "(nat \<Rightarrow> string) \<Rightarrow> merge_state \<Rightarrow> pydict \<Rightarrow> exn + merge_state" where
  "nsw_step now st nsw_record =
    (let name = dget nsw_record ''name'' in
     if \<not> truthy name then Inr st
     else case strip_upper name of
       Inl e \<Rightarrow> Inl e
     | Inr clean_name \<Rightarrow>
        if clean_name \<in> processed_nsw_names st then Inr st
        else
          let merged_record = nsw_merged_record nsw_record (now (length (merged st)))
          in Inr (st\<lparr>stats := (stats st)\<lparr>nsw_only := nsw_only (stats st) + 1\<rparr>,
                     merged := merged st @ [merged_record]\<rparr>))"

text \<open>Lines 185 to 197 and 212 to 213: the state before the first loop.\<close>

definition init_state :: "pydict list \<Rightarrow> pydict list \<Rightarrow> pydict list \<Rightarrow> merge_state" where
  "init_state abn_records acnc_records nsw_records =
     \<lparr>merged = [],
      stats = \<lparr>total_abn_records = length abn_records,
               total_acnc_records = length acnc_records,
               total_nsw_records = length nsw_records,
               merged_records = 0, abn_only = 0, acnc_only = 0, nsw_only = 0,
               abn_acnc_matches = 0, acnc_nsw_matches = 0, all_source_matches = 0\<rparr>,
      processed_abns = {},
      processed_nsw_names = {}\<rparr>"

definition merge_organization_records ::
  "(nat \<Rightarrow> string) \<Rightarrow> pydict list \<Rightarrow> pydict list \<Rightarrow> pydict list \<Rightarrow>
   exn + (pydict list \<times> merge_stats)" where
  "merge_organization_records now abn_records acnc_records nsw_records =
    (case run_loop by_abn_step Map.empty abn_records of
       Inl e \<Rightarrow> Inl e
     | Inr abn_by_abn \<Rightarrow>
    (case run_loop by_abn_step Map.empty acnc_records of
       Inl e \<Rightarrow> Inl e
     | Inr acnc_by_abn \<Rightarrow>
    (case run_loop by_name_step Map.empty nsw_records of
       Inl e \<Rightarrow> Inl e
     | Inr nsw_by_name \<Rightarrow>
    (case run_loop (abn_step acnc_by_abn nsw_by_name now)
            (init_state abn_records acnc_records nsw_records) abn_records of
       Inl e \<Rightarrow> Inl e
     | Inr st1 \<Rightarrow>
    (case run_loop (acnc_step nsw_by_name now) st1 acnc_records of
       Inl e \<Rightarrow> Inl e
     | Inr st2 \<Rightarrow>
    (case run_loop (nsw_step now) st2 nsw_records of
       Inl e \<Rightarrow> Inl e
     | Inr st3 \<Rightarrow>
         Inr (merged st3, (stats st3)\<lparr>merged_records := length (merged st3)\<rparr>)))))))"

text \<open>Membership of a source in the provenance list of a merged record.\<close>

definition has_source :: "pydict \<Rightarrow> string \<Rightarrow> bool" where
  "has_source merged_record source =
     (case dget merged_record ''sources'' of
        PList xs \<Rightarrow> PStr source \<in> set xs
      | v \<Rightarrow> False)"

text \<open>
  Inputs on which no line of the function raises: every identifier is hashable, and every
  name that is not empty or missing is a string.
\<close>

definition hashable :: "pyval \<Rightarrow> bool" where
  "hashable v = (case py_key v of Inl e \<Rightarrow> False | Inr k \<Rightarrow> True)"

fun str_or_falsy :: "pyval \<Rightarrow> bool" where
  "str_or_falsy (PStr s) = True"
| "str_or_falsy v = (\<not> truthy v)"

definition well_typed_inputs :: "pydict list \<Rightarrow> pydict list \<Rightarrow> pydict list \<Rightarrow> bool" where
  "well_typed_inputs abn_records acnc_records nsw_records =
     (list_all (\<lambda>r. hashable (dget r ''abn'')) abn_records \<and>
      list_all (\<lambda>r. hashable (dget r ''abn'') \<and> str_or_falsy (dget r ''legal_name'')) acnc_records \<and>
      list_all (\<lambda>r. str_or_falsy (dget r ''name'')) nsw_records)"

section \<open>The tabular export: \<open>write_merged_records_to_csv\<close> (app/utils/output.py)\<close>

definition fieldnames :: "string list" where
  "fieldnames =
    [''abn'', ''is_current'', ''replaced_from'', ''entity_status'', ''effective_from'',
     ''effective_to'', ''entity_type_code'', ''entity_type_description'', ''anc_status'',
     ''acnc_status_from'', ''acnc_status_to'', ''record_last_updated'', ''gst'', ''dgr'',
     ''main_trading_names'', ''other_trading_names'', ''main_business_physical_address'',
     ''tax_concession_endorsements'', ''legal_name'', ''other_organisation_names'',
     ''charity_website'', ''date_organisation_established'', ''registration_date'',
     ''charity_size'', ''number_of_responsible_persons'', ''financial_year_end'',
     ''operates_in'', ''areas_of_interest'', ''acnc_address'', ''nsw_organisation_number'',
     ''nsw_name'', ''nsw_organisation_type'', ''nsw_status'', ''nsw_date_registered'',
     ''nsw_date_removed'', ''nsw_registered_office_address'', ''nsw_organisation_id'',
     ''sources'', ''updated_at'']"

text \<open>
  The file is modelled as the list of rows handed to the CSV writer, each row a list of
  cells before quoting. \<open>csv.DictWriter\<close> writes the empty string for \<open>None\<close> and for a
  missing key, \<open>str(value)\<close> otherwise (the built-in \<open>str\<close> is the parameter \<open>py_str\<close>),
  and raises \<open>ValueError\<close> for a record with a key that is not a field name; the message
  ends with \<open>", ".join([repr(x) for x in wrong_fields])\<close> over the set of the offending
  keys, which is the parameter \<open>join_repr\<close> because Python does not fix the order in which
  a set is read. After the rows the function prints a line; \<open>print\<close> can raise, and
  \<open>print_line\<close> gives the exception it raises on a message, \<open>None\<close> when it returns.
  The result is the file as it is left, and the exception if one was raised.
\<close>

definition csv_row :: "(pyval \<Rightarrow> string) \<Rightarrow> pydict \<Rightarrow> string list" where
  "csv_row py_str record =
     map (\<lambda>f. case map_of record f of
                 None \<Rightarrow> []
               | Some PNone \<Rightarrow> []
               | Some v \<Rightarrow> py_str v) fieldnames"

fun write_rows ::
  "(pyval \<Rightarrow> string) \<Rightarrow> (string list \<Rightarrow> string) \<Rightarrow> string list list \<Rightarrow> pydict list \<Rightarrow>
   string list list \<times> exn option" where
  "write_rows py_str join_repr out [] = (out, None)"
| "write_rows py_str join_repr out (record # rest) =
     (if list_ex (\<lambda>k. k \<notin> set fieldnames) (map fst record)
      then (out, Some (ValueError (''dict contains fields not in fieldnames: '' @
                  join_repr (filter (\<lambda>k. k \<notin> set fieldnames) (map fst record)))))
      else write_rows py_str join_repr (out @ [csv_row py_str record]) rest)"

definition write_merged_records_to_csv ::
  "(pyval \<Rightarrow> string) \<Rightarrow> (string list \<Rightarrow> string) \<Rightarrow> (string \<Rightarrow> exn option) \<Rightarrow>
   pydict list \<Rightarrow> string \<Rightarrow> string list list \<times> exn option" where
  "write_merged_records_to_csv py_str join_repr print_line records filename =
     (let written = write_rows py_str join_repr [fieldnames] records
      in case snd written of
           Some e \<Rightarrow> written
         | None \<Rightarrow>
             (fst written,
              print_line (''Successfully wrote '' @ py_str (PInt (int (length records))) @
                          '' merged records to '' @ filename)))"

section \<open>The transformers (app/transformers/data_transformer.py)\<close>

text \<open>
  \<open>for item in raw_data\<close> iterates a list, the characters of a string or the keys of a
  dictionary, and raises \<open>TypeError\<close> on any other value; \<open>item.get\<close> exists on
  dictionaries only.
\<close>

fun py_iter :: "pyval \<Rightarrow> exn + pyval list" where
  "py_iter (PList xs) = Inr xs"
| "py_iter (PStr s) = Inr (map (\<lambda>c. PStr [c]) s)"
| "py_iter (PDict d) = Inr (map (\<lambda>kv. PStr (fst kv)) d)"
| "py_iter v = Inl TypeError"

fun as_dict :: "pyval \<Rightarrow> exn + pydict" where
  "as_dict (PDict d) = Inr d"
| "as_dict v = Inl AttributeError"

definition abn_item :: "pydict \<Rightarrow> string \<Rightarrow> pydict" where
  "abn_item item ts =
    [(''abn'', dget item ''abn''),
     (''is_current'', dget item ''isCurrent''),
     (''replaced_from'', dget item ''replacedFrom''),
     (''entity_status'', dget item ''entityStatus''),
     (''effective_from'', dget item ''effectiveFrom''),
     (''effective_to'', dget item ''effectiveTo''),
     (''entity_type_code'', dget item ''entityTypeCode''),
     (''entity_type_description'', dget item ''entityTypeDescription''),
     (''anc_status'', dget item ''anc_status''),
     (''acnc_status_from'', dget item ''acnc_status_from''),
     (''acnc_status_to'', dget item ''acnc_status_to''),
     (''record_last_updated'', dget item ''record_last_updated''),
     (''gst'', dget item ''gst''),
     (''dgr'', dget item ''dgr''),
     (''main_trading_names'', dget item ''main_trading_names''),
     (''other_trading_names'', dget item ''other_trading_names''),
     (''main_business_physical_address'', dget_default item ''main_business_physical_address'' (PDict [])),
     (''tax_concession_endorsements'', dget_default item ''tax_concession_endorsements'' (PList [])),
     (''updated_at'', PStr ts)]"

definition acnc_item :: "pydict \<Rightarrow> string \<Rightarrow> pydict" where
  "acnc_item item ts =
    [(''abn'', dget item ''ABN''),
     (''legal_name'', dget item ''Charity_Legal_Name''),
     (''other_organisation_names'', dget item ''Other_Organisation_Names''),
     (''address'', PDict (py_dict [
         (''street'', dget item ''Address_Type''),
         (''street'', dget item ''Address_Line_1''),
         (''street'', dget item ''Address_Line_2''),
         (''street'', dget item ''Address_Line_3''),
         (''city'', dget item ''Town_City''),
         (''state'', dget item ''State''),
         (''postcode'', dget item ''Postcode''),
         (''country'', dget item ''Country'')])),
     (''charity_wbsite'', dget item ''Charity_Website''),
     (''date_organisation_established'', dget item ''Date_Organisation_Established''),
     (''registration_date'', dget item ''Registration_Date''),
     (''charity_size'', dget item ''Charity_Size''),
     (''number_of_responsible_persons'', dget item ''Number_of_Responsible_Persons''),
     (''finacial_year_end'', dget item ''Financial_Year_End''),
     (''operates_in'', PDict [
         (''act'', dget item ''Operates_in_ACT''),
         (''nsw'', dget item ''Operates_in_NSW''),
         (''nt'', dget item ''Operates_in_NT''),
         (''qld'', dget item ''Operates_in_QLD''),
         (''sa'', dget item ''Operates_in_SA''),
         (''tas'', dget item ''Operates_in_TAS''),
         (''vic'', dget item ''Operates_in_VIC''),
         (''wa'', dget item ''Operates_in_WA''),
         (''countries'', dget item ''Operates_in_Countries'')]),
     (''areas_of_interest'', PDict [
         (''pbi'', dget item ''PBI''),
         (''hpc'', dget item ''HPC''),
         (''preventing_or_relieving_suffering_of_animals'', dget item ''Preventing_or_relieving_suffering_of_animals''),
         (''aborigninal_or_tsi'', dget item ''Aboriginal_or_TSI''),
         (''adults'', dget item ''Adults''),
         (''advancing_health'', dget item ''Advancing_health''),
         (''advancing_education'', dget item ''Advancing_education''),
         (''advancing_religion'', dget item ''Advancing_religion''),
         (''advancing_culture'', dget item ''Advancing_culture''),
         (''advancing_social_or_public_welfare'', dget item ''Advancing_social_or_public_welfare''),
         (''advancing_natural_environment'', dget item ''Advancing_natual_environment''),
         (''advancing_security_or safety_of_australia_or_australian_public'', dget item ''Advancing_security_or_safety_of_Australia_or_Australian_public''),
         (''aged_persons'', dget item ''Aged_Persons''),
         (''childern'', dget item ''Children''),
         (''communities_overseas'', dget item ''Communities_Overseas''),
         (''early_childhood'', dget item ''Early_Childhood''),
         (''ethnic_groups'', dget item ''Ethnic_Groups''),
         (''families'', dget item ''Families''),
         (''females'', dget item ''Females''),
         (''financially_disadvantaged'', dget item ''Financially_Disadvantaged''),
         (''gay_lesbian_bisexual'', dget item ''Gay_Lesbian_Bisexual''),
         (''general_community_in_australia'', dget item ''General_Community_in_Australia''),
         (''males'', dget item ''Males''),
         (''migrants_refugees_or_asylum_seekers'', dget item ''Migrants_Refugees_or_Asylum_Seekers''),
         (''other_beneficiaries'', dget item ''Other_Beneficiaries''),
         (''other_charities'', dget item ''Other_Charities''),
         (''promote_or_oppose_a_change_to_law__government_poll_or_prac'', dget item ''Promote_or_oppose_a_change_to_law__government_poll_or_prac''),
         (''promoting_or_protecting_human_rights'', dget item ''Promoting_or_protecting_human_rights''),
         (''promoting_reconciliation__mutual_respect_and_tolerance'', dget item ''Promoting_reconciliation__mutual_respect_and_tolerance''),
         (''purposes_beneficial_to_ther_general_public_and_other_analogous'', dget item ''Purposes_beneficial_to_ther_general_public_and_other_analogous''),
         (''people_at_risk_of_homelessness'', dget item ''People_at_risk_of_homelessness''),
         (''people_with_chronic_illness'', dget item ''People_with_Chronic_Illness''),
         (''people_with_disabilities'', dget item ''People_with_Disabilities''),
         (''pre_post_releaseoffenders'', dget item ''Pre_Post_Release_Offenders''),
         (''rural_regional_remote_communities'', dget item ''Rural_Regional_Remote_Communities''),
         (''unemployed_person'', dget item ''Unemployed_Person''),
         (''veterans_or_their_families'', dget item ''Veterans_or_their_families''),
         (''victims_of_crime'', dget item ''Victims_of_crime''),
         (''victims_of_disasters'', dget item ''Victims_of_Disasters''),
         (''youth'', dget item ''Youth'')]),
     (''updated_at'', PStr ts)]"

definition nsw_item :: "pydict \<Rightarrow> string \<Rightarrow> pydict" where
  "nsw_item item ts =
    [(''organisation_number'', dget item ''organisation_number''),
     (''name'', dget item ''name''),
     (''organisation_type'', dget item ''organisation_type''),
     (''status'', dget item ''status''),
     (''date_registered'', dget item ''date_registered''),
     (''date_removed'', dget item ''date_removed''),
     (''registered_office_address'', dget item ''registered_office_address''),
     (''organisation_id'', dget item ''organisation_id''),
     (''updated_at'', PStr ts)]"

definition transform_loop ::
  "(pydict \<Rightarrow> string \<Rightarrow> pydict) \<Rightarrow> (nat \<Rightarrow> string) \<Rightarrow> pyval \<Rightarrow> exn + pydict list" where
  "transform_loop display now raw_data =
     (case py_iter raw_data of
        Inl e \<Rightarrow> Inl e
      | Inr items \<Rightarrow>
          run_loop (\<lambda>transformed item.
                      case as_dict item of
                        Inl e \<Rightarrow> Inl e
                      | Inr d \<Rightarrow> Inr (transformed @ [display d (now (length transformed))]))
                   [] items)"

definition transform_abn_data :: "(nat \<Rightarrow> string) \<Rightarrow> pyval \<Rightarrow> exn + pydict list" where
  "transform_abn_data now raw_data = transform_loop abn_item now raw_data"

definition transform_acnc_data :: "(nat \<Rightarrow> string) \<Rightarrow> pyval \<Rightarrow> exn + pydict list" where
  "transform_acnc_data now raw_data = transform_loop acnc_item now raw_data"

definition transform_nsw_assoc_data :: "(nat \<Rightarrow> string) \<Rightarrow> pyval \<Rightarrow> exn + pydict list" where
  "transform_nsw_assoc_data now raw_data = transform_loop nsw_item now raw_data"

section \<open>The extraction scheduler (app/api/routes.py)\<close>

text \<open>
  The collaborators of the request handler: the cache (\<open>RedisCache.get\<close> returns \<open>None\<close>
  for an absent key and on a Redis error), the \<open>extract\<close> methods of the three
  extractors, which return the raw data or raise, the loader, the order in which the
  thread pool completes the submitted jobs, the clock, the built-in \<open>str\<close> on values and
  on exceptions, the text that \<open>csv.DictWriter\<close> gives for a set of keys, and the
  standard output. \<open>print\<close> raises when the stream cannot take the message
  (\<open>UnicodeEncodeError\<close> for a character outside its encoding, \<open>OSError\<close> on a closed
  stream): \<open>print_out E message\<close> is the exception raised, \<open>None\<close> when the call
  returns. What a successful \<open>print\<close> writes is not kept. A number in a formatted
  message is \<open>str\<close> of the number.
\<close>

record env =
  cache_get :: "string \<Rightarrow> pyval"
  nsw_extract :: "string \<Rightarrow> exn + pyval"
  acnc_extract :: "string \<Rightarrow> string \<Rightarrow> exn + pyval"
  abn_extract :: "string \<Rightarrow> string \<Rightarrow> exn + pyval"
  upsert_organizations :: "pydict list \<Rightarrow> exn + pyval"
  as_completed :: "(string \<times> string) list \<Rightarrow> (string \<times> string) list"
  clock :: "nat \<Rightarrow> string"
  py_str :: "pyval \<Rightarrow> string"
  exn_str :: "exn \<Rightarrow> string"
  join_repr :: "string list \<Rightarrow> string"
  print_out :: "string \<Rightarrow> exn option"

text \<open>
  \<open>load_postcodes_for_state\<close> (lines 114 to 136). A stored entry holds a JSON array of
  strings (\<open>upload_postcodes\<close> writes nothing else) and \<open>sorted\<close> orders it by code
  point; \<open>sorted\<close> also raises on an array that mixes strings with other values. Arrays
  of other values only, and other iterables, are outside the model and are made to raise
  as well.
\<close>

fun str_value :: "pyval \<Rightarrow> string option" where
  "str_value (PStr s) = Some s"
| "str_value v = None"

fun sorted_postcodes :: "pyval \<Rightarrow> exn + string list" where
  "sorted_postcodes (PList xs) =
     (if list_all (\<lambda>x. str_value x \<noteq> None) xs
      then Inr (sort (List.map_filter str_value xs))
      else Inl TypeError)"
| "sorted_postcodes v = Inl TypeError"

fun subscript_postcodes :: "pyval \<Rightarrow> exn + pyval" where
  "subscript_postcodes (PDict d) =
     (case map_of d ''postcodes'' of
        None \<Rightarrow> Inl (KeyError ''postcodes'')
      | Some v \<Rightarrow> Inr v)"
| "subscript_postcodes v = Inl TypeError"

definition load_postcodes_try :: "env \<Rightarrow> string \<Rightarrow> exn + string list" where
  "load_postcodes_try E state =
     (let redis_key = ''postcodes:'' @ py_upper state;
          data = cache_get E redis_key
      in if \<not> truthy data
         then Inl (KeyError (''No postcodes found for '' @ state @ ''. Please upload them first.''))
         else (case subscript_postcodes data of
                 Inl e \<Rightarrow> Inl e
               | Inr v \<Rightarrow> sorted_postcodes v))"

definition load_postcodes_for_state :: "env \<Rightarrow> string \<Rightarrow> exn + string list" where
  "load_postcodes_for_state E state =
     (case load_postcodes_try E state of
        Inl e \<Rightarrow> Inl (KeyError (''Error loading postcodes for '' @ state @ '': '' @ exn_str E e))
      | Inr postcodes \<Rightarrow> Inr postcodes)"

text \<open>
  \<open>extract_data_for_postcode\<close> (lines 138 to 171): the \<open>try\<close> block, then the handler
  of \<open>except Exception\<close>, which prints the message of line 170 and then returns the
  empty list. An exception raised by that \<open>print\<close> leaves the function.
\<close>

definition extract_try :: "env \<Rightarrow> string \<Rightarrow> string \<Rightarrow> string \<Rightarrow> exn + pydict list" where
  "extract_try E source state postcode =
     (if source = ''nsw''
      then (case nsw_extract E postcode of
              Inl e \<Rightarrow> Inl e
            | Inr raw_data \<Rightarrow> transform_nsw_assoc_data (clock E) raw_data)
      else if source = ''acnc''
      then (case acnc_extract E state postcode of
              Inl e \<Rightarrow> Inl e
            | Inr raw_data \<Rightarrow> transform_acnc_data (clock E) raw_data)
      else if source = ''abn''
      then (case abn_extract E state postcode of
              Inl e \<Rightarrow> Inl e
            | Inr raw_data \<Rightarrow> transform_abn_data (clock E) raw_data)
      else Inl (ValueError ''Invalid source''))"

definition extract_error_message :: "env \<Rightarrow> string \<Rightarrow> string \<Rightarrow> string \<Rightarrow> exn \<Rightarrow> string" where
  "extract_error_message E source state postcode e =
     ''Error extracting '' @ source @ '' data for '' @ state @ ''/'' @ postcode @ '': '' @
     exn_str E e"

definition extract_data_for_postcode ::
  "env \<Rightarrow> string \<Rightarrow> string \<Rightarrow> string \<Rightarrow> exn + pydict list" where
  "extract_data_for_postcode E source state postcode =
     (case extract_try E source state postcode of
        Inl e \<Rightarrow>
          (case print_out E (extract_error_message E source state postcode e) of
             Some e' \<Rightarrow> Inl e'
           | None \<Rightarrow> Inr [])
      | Inr records \<Rightarrow> Inr records)"

text \<open>The statistics of a batch (lines 508 to 513 and 532 to 534).\<close>

record postcode_counts =
  abn_count :: nat
  acnc_count :: nat
  nsw_count :: nat
  total_count :: nat

record postcode_stats =
  total_postcodes :: nat
  processed_postcodes :: nat
  failed_postcodes :: "string list"
  by_postcode :: "string \<rightharpoonup> postcode_counts"

record collected =
  all_abn_records :: "pydict list"
  all_acnc_records :: "pydict list"
  all_nsw_records :: "pydict list"
  pstats :: postcode_stats

text \<open>
  The handler of the loop over the completed futures (lines 555 to 558): it prints, and
  lists the postcode as failed if it is not listed yet.
\<close>

definition record_failure ::
  "env \<Rightarrow> collected \<Rightarrow> string \<Rightarrow> string \<Rightarrow> exn \<Rightarrow> exn + collected" where
  "record_failure E c source postcode e =
     (case print_out E (''Failed to extract '' @ source @ '' data for '' @ postcode @ '': '' @
                         exn_str E e) of
        Some e' \<Rightarrow> Inl e'
      | None \<Rightarrow>
          (let ps = pstats c
           in if postcode \<notin> set (failed_postcodes ps)
              then Inr (c\<lparr>pstats := ps\<lparr>failed_postcodes := failed_postcodes ps @ [postcode]\<rparr>\<rparr>)
              else Inr c))"

text \<open>
  The body of the loop over the completed futures (lines 525 to 558): \<open>snd future\<close> is
  what \<open>future.result()\<close> returns or raises. The records and the counts are entered
  before the \<open>print\<close> of line 553; when that \<open>print\<close> raises, the handler runs on
  what has been entered.
\<close>

definition collect_step ::
  "env \<Rightarrow> collected \<Rightarrow> (string \<times> string) \<times> (exn + pydict list) \<Rightarrow> exn + collected" where
  "collect_step E c future =
    (let source = fst (fst future); postcode = snd (fst future); ps = pstats c in
     case snd future of
       Inl e \<Rightarrow> record_failure E c source postcode e
     | Inr records \<Rightarrow>
         let counts0 = (case by_postcode ps postcode of
                          None \<Rightarrow> \<lparr>abn_count = 0, acnc_count = 0, nsw_count = 0, total_count = 0\<rparr>
                        | Some counts \<Rightarrow> counts);
             c1 = (if source = ''abn''
                   then c\<lparr>all_abn_records := all_abn_records c @ records\<rparr>
                   else if source = ''acnc''
                   then c\<lparr>all_acnc_records := all_acnc_records c @ records\<rparr>
                   else if source = ''nsw''
                   then c\<lparr>all_nsw_records := all_nsw_records c @ records\<rparr>
                   else c);
             counts1 = (if source = ''abn''
                        then counts0\<lparr>abn_count := length records\<rparr>
                        else if source = ''acnc''
                        then counts0\<lparr>acnc_count := length records\<rparr>
                        else if source = ''nsw''
                        then counts0\<lparr>nsw_count := length records\<rparr>
                        else counts0);
             counts2 = counts1\<lparr>total_count :=
                         abn_count counts1 + acnc_count counts1 + nsw_count counts1\<rparr>;
             c2 = c1\<lparr>pstats := ps\<lparr>by_postcode := (by_postcode ps)(postcode \<mapsto> counts2)\<rparr>\<rparr>
         in (case print_out E (''Completed '' @ source @ '' extraction for '' @ postcode @ '': '' @
                               py_str E (PInt (int (length records))) @ '' records'') of
               Some e \<Rightarrow> record_failure E c2 source postcode e
             | None \<Rightarrow> Inr c2))"

text \<open>Lines 519 to 522: the jobs in the order of submission.\<close>

definition submitted_jobs :: "string list \<Rightarrow> (string \<times> string) list" where
  "submitted_jobs postcodes =
     concat (map (\<lambda>postcode. map (\<lambda>source. (source, postcode)) [''abn'', ''acnc'', ''nsw''])
                 postcodes)"

text \<open>
  Lines 504 to 564: every job runs \<open>extract_data_for_postcode\<close>, the results are collected
  in the order of completion, and the processed postcodes are counted. An exception that
  leaves the handler of the loop leaves the block.
\<close>

definition collect_batch :: "env \<Rightarrow> string \<Rightarrow> string list \<Rightarrow> exn + collected" where
  "collect_batch E state_upper postcodes =
    (let c0 = \<lparr>all_abn_records = [], all_acnc_records = [], all_nsw_records = [],
               pstats = \<lparr>total_postcodes = length postcodes, processed_postcodes = 0,
                         failed_postcodes = [], by_postcode = Map.empty\<rparr>\<rparr>;
         completed = map (\<lambda>job. (job, extract_data_for_postcode E (fst job) state_upper (snd job)))
                         (as_completed E (submitted_jobs postcodes))
     in case run_loop (collect_step E) c0 completed of
          Inl e \<Rightarrow> Inl e
        | Inr c \<Rightarrow>
            (let ps = pstats c
             in Inr (c\<lparr>pstats := ps\<lparr>processed_postcodes :=
                      length (filter (\<lambda>p. case by_postcode ps p of
                                             None \<Rightarrow> False
                                           | Some counts \<Rightarrow> 0 < total_count counts)
                                     postcodes)\<rparr>\<rparr>)))"

text \<open>
  The handler \<open>sync_all_sources\<close> (lines 474 to 613). The successful response is kept as
  a record of its fields, the other bodies as JSON values; the effects of a request are
  returned as a trace.
\<close>

record sync_response =
  resp_state :: string
  resp_postcode_stats :: postcode_stats
  resp_merge_stats :: merge_stats
  resp_merged_records_count :: nat
  resp_loader_result :: pyval
  resp_merged_records :: "pydict list"
  resp_total_merged_records :: nat
  resp_processing_time :: string

datatype body = Json pyval | SyncResult sync_response

datatype response = Response (status_code: nat) (response_body: body)

datatype event =
    Submit string string string
  | Merge
  | WriteCsv string "string list list"
  | Upsert "pydict list"
  | CacheSet string nat

text \<open>The two handlers of the outer \<open>try\<close> (lines 601 to 613).\<close>

definition error_response :: "env \<Rightarrow> string \<Rightarrow> exn \<Rightarrow> response" where
  "error_response E state e =
     (case e of
        KeyError m \<Rightarrow>
          Response 404 (Json (PDict [
            (''error'', PStr (exn_str E e)),
            (''suggestion'', PStr (''Upload postcodes for '' @ state @ '' using /upload/postcodes/'' @ state)),
            (''status'', PStr ''failed'')]))
      | other \<Rightarrow>
          Response 500 (Json (PDict [
            (''error'', PStr (exn_str E e)),
            (''state'', PStr state),
            (''status'', PStr ''failed'')])))"

text \<open>Lines 575 to 581: the export and the load of a non-empty result.\<close>

definition load_merged ::
  "env \<Rightarrow> string \<Rightarrow> pydict list \<Rightarrow> (exn + pyval) \<times> event list" where
  "load_merged E state_upper records =
     (if records \<noteq> []
      then (let filename = ''merged_records_'' @ state_upper @ ''.csv'';
                written = write_merged_records_to_csv (py_str E) (join_repr E) (print_out E)
                            records filename
            in case snd written of
                 Some e \<Rightarrow> (Inl e, [WriteCsv filename (fst written)])
               | None \<Rightarrow>
                   (case upsert_organizations E records of
                      Inl e \<Rightarrow> (Inl e, [WriteCsv filename (fst written), Upsert records])
                    | Inr loader_result \<Rightarrow>
                        (case print_out E (''Loaded '' @ py_str E (PInt (int (length records))) @
                                           '' records to Supabase'') of
                           Some e \<Rightarrow> (Inl e, [WriteCsv filename (fst written), Upsert records])
                         | None \<Rightarrow>
                             (Inr loader_result,
                              [WriteCsv filename (fst written), Upsert records]))))
      else (Inr (PStr ''No records to load''), []))"

text \<open>The lines printed at lines 501, 566 and 573.\<close>

definition starting_message :: "env \<Rightarrow> string \<Rightarrow> string list \<Rightarrow> string" where
  "starting_message E state_upper postcodes =
     ''Starting bulk sync for '' @ state_upper @ '' with '' @
     py_str E (PInt (int (length postcodes))) @ '' postcodes''"

definition extraction_message :: "env \<Rightarrow> collected \<Rightarrow> string" where
  "extraction_message E c =
     ''Extraction complete. Found '' @ py_str E (PInt (int (length (all_abn_records c)))) @
     '' ABN, '' @ py_str E (PInt (int (length (all_acnc_records c)))) @
     '' ACNC, '' @ py_str E (PInt (int (length (all_nsw_records c)))) @ '' NSW records''"

definition merging_message :: "env \<Rightarrow> pydict list \<Rightarrow> string" where
  "merging_message E records =
     ''Merging complete. Created '' @ py_str E (PInt (int (length records))) @
     '' merged records''"

definition sync_all_sources :: "env \<Rightarrow> string \<Rightarrow> response \<times> event list" where
  "sync_all_sources E state =
    (let state_upper = py_upper state;
         cache_key = ''sync_all_'' @ state_upper;
         cached_data = cache_get E cache_key
     in if truthy cached_data then (Response 200 (Json cached_data), [])
        else (case load_postcodes_for_state E state_upper of
                Inl e \<Rightarrow> (error_response E state e, [])
              | Inr postcodes \<Rightarrow>
                  if postcodes = []
                  then (Response 400 (Json (PDict [
                          (''error'', PStr (''No postcodes found for '' @ state_upper))])), [])
                  else
                   (case print_out E (starting_message E state_upper postcodes) of
                      Some e \<Rightarrow> (error_response E state e, [])
                    | None \<Rightarrow>
                    let submitted = map (\<lambda>job. Submit (fst job) state_upper (snd job))
                                        (submitted_jobs postcodes)
                    in (case collect_batch E state_upper postcodes of
                          Inl e \<Rightarrow> (error_response E state e, submitted)
                        | Inr c \<Rightarrow>
                    (case print_out E (extraction_message E c) of
                       Some e \<Rightarrow> (error_response E state e, submitted)
                     | None \<Rightarrow>
                    (case merge_organization_records (clock E)
                               (all_abn_records c) (all_acnc_records c) (all_nsw_records c) of
                       Inl e \<Rightarrow> (error_response E state e, submitted @ [Merge])
                     | Inr (records, merge_stats) \<Rightarrow>
                    (case print_out E (merging_message E records) of
                       Some e \<Rightarrow> (error_response E state e, submitted @ [Merge])
                     | None \<Rightarrow>
                         let loaded = load_merged E state_upper records in
                         (case fst loaded of
                            Inl e \<Rightarrow>
                              (error_response E state e, submitted @ [Merge] @ snd loaded)
                          | Inr loader_result \<Rightarrow>
                              (Response 200 (SyncResult
                                 \<lparr>resp_state = state_upper,
                                  resp_postcode_stats = pstats c,
                                  resp_merge_stats = merge_stats,
                                  resp_merged_records_count = length records,
                                  resp_loader_result = loader_result,
                                  resp_merged_records = take 100 records,
                                  resp_total_merged_records = length records,
                                  resp_processing_time = clock E (length records)\<rparr>),
                               submitted @ [Merge] @ snd loaded @
                               [CacheSet cache_key 3600])))))))))"

section \<open>Concrete collaborators for the examples\<close>

text \<open>
  A clock, and a state with the postcodes 2001 and 2000 stored, in which the register of
  business numbers fails for postcode 2000, the association register returns one
  association for postcode 2001, every other query returns no record, and every
  \<open>print\<close> returns. The second collaborator has a cached result for the state and no
  postcodes stored. In the third the standard output cannot encode what is printed.
\<close>

definition sample_clock :: "nat \<Rightarrow> string" where
  "sample_clock n = ''2025-01-01T00:00:00''"

definition failing_env :: env where
  "failing_env =
     \<lparr>cache_get = (\<lambda>key. if key = ''postcodes:NSW''
                          then PDict [(''postcodes'', PList [PStr ''2001'', PStr ''2000''])]
                          else PNone),
      nsw_extract = (\<lambda>postcode. if postcode = ''2001''
                                 then Inr (PList [PDict [(''name'', PStr ''X'')]])
                                 else Inr (PList [])),
      acnc_extract = (\<lambda>state postcode. Inr (PList [])),
      abn_extract = (\<lambda>state postcode. if postcode = ''2000''
                                       then Inl (OtherError ''ABR unavailable'')
                                       else Inr (PList [])),
      upsert_organizations = (\<lambda>records. Inr (PList [])),
      as_completed = (\<lambda>jobs. jobs),
      clock = sample_clock,
      py_str = (\<lambda>v. ''?''),
      exn_str = (\<lambda>e. ''error''),
      join_repr = (\<lambda>keys. ''?''),
      print_out = (\<lambda>message. None)\<rparr>"

definition cached_env :: env where
  "cached_env =
     failing_env\<lparr>cache_get := (\<lambda>key. if key = ''sync_all_NSW''
                                      then PDict [(''status'', PStr ''success'')]
                                      else PNone)\<rparr>"

definition ascii_stdout_env :: env where
  "ascii_stdout_env = failing_env\<lparr>print_out := (\<lambda>message. Some UnicodeEncodeError)\<rparr>"


section \<open>Reading dictionaries\<close>

lemma dget_Nil: "dget [] k = PNone"
  by (simp add: dget_def)

lemma dget_Cons: "dget ((k', v) # d) k = (if k = k' then v else dget d k)"
  by (simp add: dget_def)

lemma dget_update: "dget (AList.update k v d) k' = (if k' = k then v else dget d k')"
  by (simp add: dget_def update_conv')

lemma dget_dict_update_other: "k \<notin> fst ` set new \<Longrightarrow> dget (dict_update d new) k = dget d k"
  unfolding dict_update_def
  by (induction new arbitrary: d) (auto simp: dget_update)

lemma dget_sources_append: "dget (sources_append d s) k =
   (if k = ''sources'' then (case dget d ''sources'' of PList xs \<Rightarrow> PList (xs @ [PStr s]) | v \<Rightarrow> v) else dget d k)"
  by (simp add: sources_append_def dget_update)

lemma sources_append_update:
  assumes "dget d ''sources'' = PList xs" and "''sources'' \<notin> fst ` set new"
  shows "dget (sources_append (dict_update d new) s) ''sources'' = PList (xs @ [PStr s])"
  using assms by (simp add: dget_sources_append dget_dict_update_other)

section \<open>The dictionary displays of the merge\<close>

lemma sources_notin_acnc_fields: "''sources'' \<notin> fst ` set (acnc_fields a)"
  by (simp add: acnc_fields_def)

lemma sources_notin_nsw_fields: "''sources'' \<notin> fst ` set (nsw_fields a)"
  by (simp add: nsw_fields_def)

lemma abn_notin_acnc_fields: "''abn'' \<notin> fst ` set (acnc_fields a)"
  by (simp add: acnc_fields_def)

lemma abn_notin_nsw_fields: "''abn'' \<notin> fst ` set (nsw_fields a)"
  by (simp add: nsw_fields_def)

lemma abn_merged_record_sources: "dget (abn_merged_record r ts) ''sources'' = PList [PStr ''abn'']"
  by (simp add: abn_merged_record_def dget_Cons)

lemma abn_merged_record_abn: "dget (abn_merged_record r ts) ''abn'' = dget r ''abn''"
  by (simp add: abn_merged_record_def dget_Cons)

lemma acnc_merged_record_sources: "dget (acnc_merged_record abn r ts) ''sources'' = PList [PStr ''acnc'']"
  by (simp add: acnc_merged_record_def dget_Cons)

lemma acnc_merged_record_abn: "dget (acnc_merged_record abn r ts) ''abn'' = abn"
  by (simp add: acnc_merged_record_def dget_Cons)

lemma nsw_merged_record_sources: "dget (nsw_merged_record r ts) ''sources'' = PList [PStr ''nsw'']"
  by (simp add: nsw_merged_record_def dget_Cons)

lemma nsw_merged_record_name: "dget (nsw_merged_record r ts) ''nsw_name'' = dget r ''name''"
  by (simp add: nsw_merged_record_def dget_Cons)

lemma sources_with_acnc:
  "dget (sources_append (dict_update (abn_merged_record r ts) (acnc_fields a)) ''acnc'') ''sources'' =
     PList [PStr ''abn'', PStr ''acnc'']"
  by (simp add: dget_sources_append dget_dict_update_other sources_notin_acnc_fields
      abn_merged_record_sources)

lemma sources_with_acnc_nsw:
  "dget (sources_append (dict_update
           (sources_append (dict_update (abn_merged_record r ts) (acnc_fields a)) ''acnc'')
           (nsw_fields n)) ''nsw'') ''sources'' =
     PList [PStr ''abn'', PStr ''acnc'', PStr ''nsw'']"
  using sources_append_update[OF sources_with_acnc sources_notin_nsw_fields] by simp

lemma acnc_nsw_fields_none:
  "list_all (\<lambda>f. dget (acnc_merged_record abn r ts) f = PNone)
     [''nsw_organisation_number'', ''nsw_name'', ''nsw_organisation_type'', ''nsw_status'',
      ''nsw_date_registered'', ''nsw_date_removed'', ''nsw_registered_office_address'',
      ''nsw_organisation_id'']"
  by (simp add: acnc_merged_record_def dget_Cons)

lemma keys_nsw_merged_record: "map fst (nsw_merged_record r ts) = fieldnames"
  by (simp add: nsw_merged_record_def fieldnames_def)

section \<open>Normalising names\<close>

lemma clean_X: "py_upper (py_strip ''X'') = ''X''"
  by (simp add: py_upper_def py_strip_def py_isspace_def)

lemma clean_blank: "py_upper (py_strip ''  '') = []"
  by (simp add: py_upper_def py_strip_def py_isspace_def)

lemma upper_char_idem:
  fixes c :: char
  assumes "97 \<le> (of_char c :: nat)" and "(of_char c :: nat) \<le> 122"
  shows "\<not> (97 \<le> (of_char (char_of ((of_char c :: nat) - 32) :: char) :: nat))"
proof -
  have "(of_char (char_of ((of_char c :: nat) - 32) :: char) :: nat) = ((of_char c :: nat) - 32) mod 256"
    by simp
  also have "\<dots> = (of_char c :: nat) - 32" using assms by simp
  finally show ?thesis using assms by simp
qed

lemma py_upper_idem: "py_upper (py_upper s) = py_upper s"
proof -
  define up :: "char \<Rightarrow> char" where
    "up = (\<lambda>c. if 97 \<le> (of_char c :: nat) \<and> (of_char c :: nat) \<le> 122
               then char_of ((of_char c :: nat) - 32) else c)"
  have "up (up c) = up c" for c
  proof (cases "97 \<le> (of_char c :: nat) \<and> (of_char c :: nat) \<le> 122")
    case True
    then have "\<not> (97 \<le> (of_char (char_of ((of_char c :: nat) - 32) :: char) :: nat))"
      by (intro upper_char_idem) simp_all
    then show ?thesis using True by (simp add: up_def)
  next
    case False
    then have "up c = c" unfolding up_def by (simp only: if_False)
    then show ?thesis by simp
  qed
  then have "map up (map up s) = map up s" by simp
  then show ?thesis by (simp add: py_upper_def up_def)
qed

lemma upper_NSW: "py_upper ''NSW'' = ''NSW''" "py_upper ''nsw'' = ''NSW''"
  by (simp_all add: py_upper_def char_of_eq_iff)

section \<open>Loops\<close>

lemma run_loop_invariant:
  assumes "run_loop body s xs = Inr s'" and "P s"
    and "\<And>t x t'. x \<in> set xs \<Longrightarrow> P t \<Longrightarrow> body t x = Inr t' \<Longrightarrow> P t'"
  shows "P s'"
  using assms
proof (induction xs arbitrary: s)
  case Nil
  then show ?case by simp
next
  case (Cons x xs)
  from Cons.prems(1) obtain t where t: "body s x = Inr t" and rest: "run_loop body t xs = Inr s'"
    by (auto split: sum.splits)
  have "P t" using Cons.prems(3)[of x s t] Cons.prems(2) t by simp
  show ?case
    by (rule Cons.IH[OF rest \<open>P t\<close>]) (use Cons.prems(3) in auto)
qed

lemma run_loop_returns:
  assumes "P s"
    and "\<And>t x. x \<in> set xs \<Longrightarrow> P t \<Longrightarrow> \<exists>t'. body t x = Inr t' \<and> P t'"
  shows "\<exists>s'. run_loop body s xs = Inr s'"
  using assms
proof (induction xs arbitrary: s)
  case Nil
  then show ?case by simp
next
  case (Cons x xs)
  from Cons.prems(2)[of x s] Cons.prems(1) obtain t where t: "body s x = Inr t" "P t" by auto
  have "\<exists>s'. run_loop body t xs = Inr s'"
    by (rule Cons.IH[OF t(2)]) (use Cons.prems(2) in auto)
  then show ?case using t by simp
qed

section \<open>The three passes\<close>

text \<open>
  The first pass keeps the number of its records equal to \<open>abn_only + abn_acnc_matches\<close>;
  the later passes only append and leave the counters of the first pass alone.
\<close>

lemma abn_step_counts:
  assumes "abn_step A N now st r = Inr st'"
    and "length (merged st) = abn_only (stats st) + abn_acnc_matches (stats st)"
    and "all_source_matches (stats st) \<le> abn_acnc_matches (stats st)"
  shows "length (merged st') = abn_only (stats st') + abn_acnc_matches (stats st') \<and>
         all_source_matches (stats st') \<le> abn_acnc_matches (stats st')"
  using assms
  by (auto simp: abn_step_def abn_finish_def Let_def split: if_splits sum.splits option.splits)

lemma acnc_step_frame:
  assumes "acnc_step N now st r = Inr st'"
  shows "(\<exists>rs. merged st' = merged st @ rs) \<and> abn_only (stats st') = abn_only (stats st) \<and>
     abn_acnc_matches (stats st') = abn_acnc_matches (stats st) \<and>
     all_source_matches (stats st') = all_source_matches (stats st)"
  using assms
  by (auto simp: acnc_step_def Let_def split: if_splits sum.splits option.splits)

lemma nsw_step_frame:
  assumes "nsw_step now st r = Inr st'"
  shows "(\<exists>rs. merged st' = merged st @ rs) \<and> abn_only (stats st') = abn_only (stats st) \<and>
     abn_acnc_matches (stats st') = abn_acnc_matches (stats st) \<and>
     all_source_matches (stats st') = all_source_matches (stats st)"
  using assms
  by (auto simp: nsw_step_def Let_def split: if_splits sum.splits option.splits)

lemma conservation_of_passes:
  assumes m: "merge_organization_records now a c n = Inr (recs, s)"
  shows "\<exists>abn_by_abn acnc_by_abn nsw_by_name st1 st2 st3 r2 r3.
     run_loop by_abn_step Map.empty a = Inr abn_by_abn \<and>
     run_loop by_abn_step Map.empty c = Inr acnc_by_abn \<and>
     run_loop by_name_step Map.empty n = Inr nsw_by_name \<and>
     run_loop (abn_step acnc_by_abn nsw_by_name now) (init_state a c n) a = Inr st1 \<and>
     run_loop (acnc_step nsw_by_name now) st1 c = Inr st2 \<and>
     run_loop (nsw_step now) st2 n = Inr st3 \<and>
     merged st2 = merged st1 @ r2 \<and> merged st3 = merged st2 @ r3 \<and>
     recs = merged st1 @ r2 @ r3 \<and>
     merged_records s = length recs \<and>
     length recs = length (merged st1) + length r2 + length r3 \<and>
     all_source_matches s \<le> abn_acnc_matches s \<and>
     length (merged st1) = abn_only s + (abn_acnc_matches s - all_source_matches s) + all_source_matches s"
proof -
  from m obtain abn_by_abn acnc_by_abn nsw_by_name st1 st2 st3 where
    l1: "run_loop by_abn_step Map.empty a = Inr abn_by_abn" and
    l2: "run_loop by_abn_step Map.empty c = Inr acnc_by_abn" and
    l3: "run_loop by_name_step Map.empty n = Inr nsw_by_name" and
    p1: "run_loop (abn_step acnc_by_abn nsw_by_name now) (init_state a c n) a = Inr st1" and
    p2: "run_loop (acnc_step nsw_by_name now) st1 c = Inr st2" and
    p3: "run_loop (nsw_step now) st2 n = Inr st3" and
    recs: "recs = merged st3" and
    s: "s = (stats st3)\<lparr>merged_records := length (merged st3)\<rparr>"
    unfolding merge_organization_records_def by (auto split: sum.splits)
  let ?I = "\<lambda>st. length (merged st) = abn_only (stats st) + abn_acnc_matches (stats st) \<and>
                 all_source_matches (stats st) \<le> abn_acnc_matches (stats st)"
  have i1: "?I st1"
    by (rule run_loop_invariant[OF p1, where P = ?I])
       (simp add: init_state_def, use abn_step_counts in blast)
  let ?F = "\<lambda>st0 st. (\<exists>rs. merged st = merged st0 @ rs) \<and> abn_only (stats st) = abn_only (stats st0) \<and>
     abn_acnc_matches (stats st) = abn_acnc_matches (stats st0) \<and>
     all_source_matches (stats st) = all_source_matches (stats st0)"
  have f2: "?F st1 st2"
    by (rule run_loop_invariant[OF p2, where P = "?F st1"])
       (simp, use acnc_step_frame in fastforce)
  have f3: "?F st2 st3"
    by (rule run_loop_invariant[OF p3, where P = "?F st2"])
       (simp, use nsw_step_frame in fastforce)
  from f2 obtain r2 where r2: "merged st2 = merged st1 @ r2" by blast
  from f3 obtain r3 where r3: "merged st3 = merged st2 @ r3" by blast
  have cnt: "abn_only s = abn_only (stats st1)" "abn_acnc_matches s = abn_acnc_matches (stats st1)"
     "all_source_matches s = all_source_matches (stats st1)" "merged_records s = length (merged st3)"
    using f2 f3 s by simp_all
  show ?thesis
    using l1 l2 l3 p1 p2 p3 r2 r3 recs cnt i1 by auto
qed

text \<open>No line raises on well-typed inputs.\<close>

lemma str_or_falsy_strip_upper:
  "str_or_falsy v \<Longrightarrow> truthy v \<Longrightarrow> \<exists>s. strip_upper v = Inr s"
  by (cases v) auto

lemma hashable_key: "hashable v \<Longrightarrow> \<exists>k. py_key v = Inr k"
  by (auto simp: hashable_def split: sum.splits)

lemma by_abn_returns:
  assumes "list_all (\<lambda>r. hashable (dget r ''abn'')) rs"
  shows "\<exists>m'. run_loop by_abn_step m rs = Inr m'"
proof (rule run_loop_returns[where P = "\<lambda>m. True"])
  fix t x assume "x \<in> set rs"
  then have "hashable (dget x ''abn'')" using assms by (simp add: list_all_iff)
  then show "\<exists>t'. by_abn_step t x = Inr t' \<and> True"
    by (auto simp: by_abn_step_def dest: hashable_key)
qed simp

lemma by_name_returns:
  assumes "list_all (\<lambda>r. str_or_falsy (dget r ''name'')) rs"
  shows "\<exists>m'. run_loop by_name_step m rs = Inr m'"
proof (rule run_loop_returns[where P = "\<lambda>m. True"])
  fix t x assume "x \<in> set rs"
  then have "str_or_falsy (dget x ''name'')" using assms by (simp add: list_all_iff)
  then show "\<exists>t'. by_name_step t x = Inr t' \<and> True"
    by (auto simp: by_name_step_def dest: str_or_falsy_strip_upper)
qed simp

lemma by_abn_ran:
  assumes "run_loop by_abn_step m rs = Inr m'"
  shows "ran m' \<subseteq> ran m \<union> set rs"
proof (rule run_loop_invariant[OF assms, where P = "\<lambda>t. ran t \<subseteq> ran m \<union> set rs"])
  fix t x t'
  assume x: "x \<in> set rs" and t: "ran t \<subseteq> ran m \<union> set rs" and step: "by_abn_step t x = Inr t'"
  have "t' = t \<or> (\<exists>k. t' = t(k \<mapsto> x))"
    using step by (auto simp: by_abn_step_def split: if_splits sum.splits)
  moreover have "ran (t(k \<mapsto> x)) \<subseteq> insert x (ran t)" for k
    by (auto simp: ran_def)
  ultimately show "ran t' \<subseteq> ran m \<union> set rs" using x t by blast
qed simp

lemma abn_step_returns:
  assumes "hashable (dget r ''abn'')"
    and "\<And>a. a \<in> ran A \<Longrightarrow> str_or_falsy (dget a ''legal_name'')"
  shows "\<exists>st'. abn_step A N now st r = Inr st'"
proof -
  from assms(1) obtain k where k: "py_key (dget r ''abn'') = Inr k" by (auto dest: hashable_key)
  show ?thesis
  proof (cases "A k")
    case None
    then show ?thesis using k by (simp add: abn_step_def Let_def)
  next
    case (Some a)
    then have "a \<in> ran A" by (auto simp: ran_def)
    then have sf: "str_or_falsy (dget a ''legal_name'')" by (rule assms(2))
    show ?thesis
    proof (cases "truthy (dget a ''legal_name'')")
      case True
      with sf obtain s where "strip_upper (dget a ''legal_name'') = Inr s"
        by (auto dest: str_or_falsy_strip_upper)
      then show ?thesis using k Some True
        by (simp add: abn_step_def Let_def split: option.splits)
    next
      case False
      then show ?thesis using k Some by (simp add: abn_step_def Let_def)
    qed
  qed
qed

lemma acnc_step_returns:
  assumes "hashable (dget r ''abn'')" and "str_or_falsy (dget r ''legal_name'')"
  shows "\<exists>st'. acnc_step N now st r = Inr st'"
proof -
  from assms(1) obtain k where k: "py_key (dget r ''abn'') = Inr k" by (auto dest: hashable_key)
  show ?thesis
  proof (cases "truthy (dget r ''legal_name'')")
    case True
    with assms(2) obtain s where "strip_upper (dget r ''legal_name'') = Inr s"
      by (auto dest: str_or_falsy_strip_upper)
    then show ?thesis using k True
      by (simp add: acnc_step_def Let_def split: option.splits)
  next
    case False
    then show ?thesis using k by (simp add: acnc_step_def Let_def)
  qed
qed

lemma nsw_step_returns:
  assumes "str_or_falsy (dget r ''name'')"
  shows "\<exists>st'. nsw_step now st r = Inr st'"
proof (cases "truthy (dget r ''name'')")
  case True
  with assms obtain s where "strip_upper (dget r ''name'') = Inr s"
    by (auto dest: str_or_falsy_strip_upper)
  then show ?thesis using True by (simp add: nsw_step_def Let_def)
next
  case False
  then show ?thesis by (simp add: nsw_step_def)
qed

lemma merge_returns:
  assumes "well_typed_inputs a c n"
  shows "\<exists>recs s. merge_organization_records now a c n = Inr (recs, s)"
proof -
  from assms have wa: "list_all (\<lambda>r. hashable (dget r ''abn'')) a"
    and wc: "list_all (\<lambda>r. hashable (dget r ''abn'') \<and> str_or_falsy (dget r ''legal_name'')) c"
    and wn: "list_all (\<lambda>r. str_or_falsy (dget r ''name'')) n"
    by (simp_all add: well_typed_inputs_def)
  from wc have wc1: "list_all (\<lambda>r. hashable (dget r ''abn'')) c" by (simp add: list_all_iff)
  obtain A0 where A0: "run_loop by_abn_step Map.empty a = Inr A0" using by_abn_returns[OF wa] by blast
  obtain A where A: "run_loop by_abn_step Map.empty c = Inr A" using by_abn_returns[OF wc1] by blast
  obtain N where N: "run_loop by_name_step Map.empty n = Inr N" using by_name_returns[OF wn] by blast
  have ranA: "\<And>x. x \<in> ran A \<Longrightarrow> str_or_falsy (dget x ''legal_name'')"
    using by_abn_ran[OF A] wc by (auto simp: list_all_iff)
  have "\<exists>st1. run_loop (abn_step A N now) (init_state a c n) a = Inr st1"
  proof (rule run_loop_returns[where P = "\<lambda>st. True"])
    fix t x assume "x \<in> set a"
    then have "hashable (dget x ''abn'')" using wa by (simp add: list_all_iff)
    then show "\<exists>t'. abn_step A N now t x = Inr t' \<and> True"
      using abn_step_returns[of x A N now t] ranA by simp
  qed simp
  then obtain st1 where st1: "run_loop (abn_step A N now) (init_state a c n) a = Inr st1" by blast
  have "\<exists>st2. run_loop (acnc_step N now) st1 c = Inr st2"
  proof (rule run_loop_returns[where P = "\<lambda>st. True"])
    fix t x assume "x \<in> set c"
    then have "hashable (dget x ''abn'')" "str_or_falsy (dget x ''legal_name'')"
      using wc by (simp_all add: list_all_iff)
    then show "\<exists>t'. acnc_step N now t x = Inr t' \<and> True"
      using acnc_step_returns[of x N now t] by simp
  qed simp
  then obtain st2 where st2: "run_loop (acnc_step N now) st1 c = Inr st2" by blast
  have "\<exists>st3. run_loop (nsw_step now) st2 n = Inr st3"
  proof (rule run_loop_returns[where P = "\<lambda>st. True"])
    fix t x assume "x \<in> set n"
    then have "str_or_falsy (dget x ''name'')" using wn by (simp add: list_all_iff)
    then show "\<exists>t'. nsw_step now t x = Inr t' \<and> True"
      using nsw_step_returns[of x now t] by simp
  qed simp
  then obtain st3 where st3: "run_loop (nsw_step now) st2 n = Inr st3" by blast
  show ?thesis
    by (simp add: merge_organization_records_def A0 A N st1 st2 st3)
qed

text \<open>The four ways through the body of the first loop for a record that is not skipped.\<close>

lemma abn_step_unmatched:
  assumes "truthy (dget r ''abn'')" and "py_key (dget r ''abn'') = Inr k"
    and "k \<notin> processed_abns st" and "acnc_by_abn k = None"
  shows "abn_step acnc_by_abn nsw_by_name now st r =
     Inr (abn_finish (st\<lparr>processed_abns := insert k (processed_abns st)\<rparr>)
            (abn_merged_record r (now (length (merged st)))) False False)"
  using assms by (simp add: abn_step_def Let_def)

lemma abn_step_acnc_only:
  assumes "truthy (dget r ''abn'')" and "py_key (dget r ''abn'') = Inr k"
    and "k \<notin> processed_abns st" and "acnc_by_abn k = Some a"
    and "\<not> truthy (dget a ''legal_name'') \<or>
         (\<exists>clean. strip_upper (dget a ''legal_name'') = Inr clean \<and> nsw_by_name clean = None)"
  shows "abn_step acnc_by_abn nsw_by_name now st r =
     Inr (abn_finish (st\<lparr>processed_abns := insert k (processed_abns st),
              stats := (stats st)\<lparr>abn_acnc_matches := abn_acnc_matches (stats st) + 1\<rparr>\<rparr>)
            (sources_append (dict_update (abn_merged_record r (now (length (merged st))))
                (acnc_fields a)) ''acnc'') True False)"
  using assms by (auto simp add: abn_step_def Let_def)

lemma abn_step_all_sources:
  assumes "truthy (dget r ''abn'')" and "py_key (dget r ''abn'') = Inr k"
    and "k \<notin> processed_abns st" and "acnc_by_abn k = Some a"
    and "truthy (dget a ''legal_name'')" and "strip_upper (dget a ''legal_name'') = Inr clean"
    and "nsw_by_name clean = Some n"
  shows "abn_step acnc_by_abn nsw_by_name now st r =
     Inr (abn_finish (st\<lparr>processed_abns := insert k (processed_abns st),
              processed_nsw_names := insert clean (processed_nsw_names st),
              stats := (stats st)\<lparr>abn_acnc_matches := abn_acnc_matches (stats st) + 1,
                                  acnc_nsw_matches := acnc_nsw_matches (stats st) + 1\<rparr>\<rparr>)
            (sources_append (dict_update
               (sources_append (dict_update (abn_merged_record r (now (length (merged st))))
                (acnc_fields a)) ''acnc'') (nsw_fields n)) ''nsw'') True True)"
  using assms by (simp add: abn_step_def Let_def)

lemma abn_step_raises:
  assumes "truthy (dget r ''abn'')" and "py_key (dget r ''abn'') = Inr k"
    and "k \<notin> processed_abns st" and "acnc_by_abn k = Some a"
    and "truthy (dget a ''legal_name'')" and "strip_upper (dget a ''legal_name'') = Inl e"
  shows "abn_step acnc_by_abn nsw_by_name now st r = Inl e"
  using assms by (simp add: abn_step_def Let_def)

lemma abn_finish_simps:
  "merged (abn_finish st mr b1 b2) = merged st @ [mr]"
  "all_source_matches (stats (abn_finish st mr b1 b2)) =
     all_source_matches (stats st) + (if b1 \<and> b2 then 1 else 0)"
  "abn_only (stats (abn_finish st mr b1 b2)) =
     abn_only (stats st) + (if \<not> b1 \<and> \<not> b2 then 1 else 0)"
  "abn_acnc_matches (stats (abn_finish st mr b1 b2)) = abn_acnc_matches (stats st)"
  by (simp_all add: abn_finish_def Let_def)

text \<open>The unfolding used to run the merge on concrete records.\<close>

lemmas merge_eval = merge_organization_records_def by_abn_step_def by_name_step_def abn_step_def acnc_step_def nsw_step_def
     init_state_def abn_finish_def dget_Cons dget_Nil Let_def

section \<open>Uniqueness of identifiers and names\<close>

text \<open>
  C1. The property: in the output of \<open>merge_organization_records\<close> no two records share
  a non-null \<open>abn\<close>, and no two records with sources \<open>['nsw']\<close> share a normalized
  name. The first loop enters every identifier it emits in \<open>processed_abns\<close>; the second
  and the third loop only read the tracking sets and never enter what they emit. On two
  secondary records with the identifier 1 and no primary record the result therefore has
  two records with \<open>abn\<close> 1, and on two tertiary records named X it has two records
  with sources \<open>['nsw']\<close> and the name X: the property fails on both inputs.
\<close>

theorem merge_repeats_identity:
  "(\<exists>r1 r2 s.
      merge_organization_records now [] [[(''abn'', PStr ''1'')], [(''abn'', PStr ''1'')]] [] =
        Inr ([r1, r2], s) \<and>
      dget r1 ''abn'' = PStr ''1'' \<and> dget r2 ''abn'' = PStr ''1'') \<and>
   (\<exists>r1 r2 s.
      merge_organization_records now [] [] [[(''name'', PStr ''X'')], [(''name'', PStr ''X'')]] =
        Inr ([r1, r2], s) \<and>
      dget r1 ''sources'' = PList [PStr ''nsw''] \<and> dget r2 ''sources'' = PList [PStr ''nsw''] \<and>
      dget r1 ''nsw_name'' = PStr ''X'' \<and> dget r2 ''nsw_name'' = PStr ''X'' \<and>
      nsw_only s = 2)"
  by (simp add: merge_eval clean_X acnc_merged_record_abn nsw_merged_record_sources
      nsw_merged_record_name)

section \<open>The tertiary match of the primary-seeded pass\<close>

text \<open>
  C2. The property: in the first loop the tertiary fields are merged only if the normalized
  legal name is in the tertiary lookup and not yet consumed, so that one tertiary record
  reaches at most one canonical record. The first loop tests \<open>clean_legal_name in
  nsw_by_name\<close> only; the test \<open>not in processed_nsw_names\<close> is made in the second loop
  alone. With the primary records 1 and 2, secondary records for both carrying the legal
  name X, and one tertiary record named X, both canonical records receive the tertiary
  fields and \<open>acnc_nsw_matches\<close> is 2: the property fails on this input.
\<close>

theorem merge_tertiary_merged_twice:
  "\<exists>r1 r2 s.
     merge_organization_records now
       [[(''abn'', PStr ''1'')], [(''abn'', PStr ''2'')]]
       [[(''abn'', PStr ''1''), (''legal_name'', PStr ''X'')],
        [(''abn'', PStr ''2''), (''legal_name'', PStr ''X'')]]
       [[(''name'', PStr ''X'')]] = Inr ([r1, r2], s) \<and>
     dget r1 ''abn'' = PStr ''1'' \<and> dget r2 ''abn'' = PStr ''2'' \<and>
     has_source r1 ''nsw'' \<and> has_source r2 ''nsw'' \<and>
     acnc_nsw_matches s = 2 \<and> all_source_matches s = 2"
  by (simp add: merge_eval clean_X has_source_def dget_sources_append dget_dict_update_other
     sources_notin_acnc_fields sources_notin_nsw_fields abn_merged_record_sources
     abn_notin_acnc_fields abn_notin_nsw_fields abn_merged_record_abn)

section \<open>The counters of the primary-seeded pass\<close>

text \<open>
  C4. For a primary record that the first loop does not skip: if its identifier is in the
  secondary lookup and it obtains no tertiary match (the legal name is empty or missing,
  or its normalized form is not in the tertiary lookup), the body returns, the provenance
  of the new record is \<open>['abn', 'acnc']\<close>, \<open>abn_acnc_matches\<close> grows by one, and
  neither \<open>all_source_matches\<close> nor \<open>abn_only\<close> changes. In general, whenever the body
  returns, \<open>all_source_matches\<close> grows by one exactly when the new record has both the
  secondary and the tertiary source, \<open>abn_only\<close> grows by one exactly when it has
  neither, and these are the only changes of the two counters.
\<close>

theorem abn_step_counters:
  assumes abn: "truthy (dget r ''abn'')" and key: "py_key (dget r ''abn'') = Inr k"
    and new: "k \<notin> processed_abns st"
  shows "(\<forall>a. acnc_by_abn k = Some a \<and>
              (\<not> truthy (dget a ''legal_name'') \<or>
               (\<exists>clean. strip_upper (dget a ''legal_name'') = Inr clean \<and> nsw_by_name clean = None))
          \<longrightarrow> (\<exists>st' mr. abn_step acnc_by_abn nsw_by_name now st r = Inr st' \<and>
                 merged st' = merged st @ [mr] \<and>
                 dget mr ''sources'' = PList [PStr ''abn'', PStr ''acnc''] \<and>
                 all_source_matches (stats st') = all_source_matches (stats st) \<and>
                 abn_only (stats st') = abn_only (stats st) \<and>
                 abn_acnc_matches (stats st') = abn_acnc_matches (stats st) + 1)) \<and>
         (\<forall>st'. abn_step acnc_by_abn nsw_by_name now st r = Inr st'
          \<longrightarrow> (\<exists>mr. merged st' = merged st @ [mr] \<and>
                 (has_source mr ''acnc'' \<longleftrightarrow> acnc_by_abn k \<noteq> None) \<and>
                 (has_source mr ''nsw'' \<longleftrightarrow>
                    (\<exists>a clean. acnc_by_abn k = Some a \<and> truthy (dget a ''legal_name'') \<and>
                       strip_upper (dget a ''legal_name'') = Inr clean \<and>
                       nsw_by_name clean \<noteq> None)) \<and>
                 all_source_matches (stats st') = all_source_matches (stats st) +
                    (if has_source mr ''acnc'' \<and> has_source mr ''nsw'' then 1 else 0) \<and>
                 abn_only (stats st') = abn_only (stats st) +
                    (if \<not> has_source mr ''acnc'' \<and> \<not> has_source mr ''nsw'' then 1 else 0) \<and>
                 abn_acnc_matches (stats st') = abn_acnc_matches (stats st) +
                    (if has_source mr ''acnc'' then 1 else 0)))"
proof (intro conjI allI impI)
  fix a
  assume "acnc_by_abn k = Some a \<and>
          (\<not> truthy (dget a ''legal_name'') \<or>
           (\<exists>clean. strip_upper (dget a ''legal_name'') = Inr clean \<and> nsw_by_name clean = None))"
  then show "\<exists>st' mr. abn_step acnc_by_abn nsw_by_name now st r = Inr st' \<and>
                 merged st' = merged st @ [mr] \<and>
                 dget mr ''sources'' = PList [PStr ''abn'', PStr ''acnc''] \<and>
                 all_source_matches (stats st') = all_source_matches (stats st) \<and>
                 abn_only (stats st') = abn_only (stats st) \<and>
                 abn_acnc_matches (stats st') = abn_acnc_matches (stats st) + 1"
    using abn_step_acnc_only[of r k st acnc_by_abn a nsw_by_name now, OF abn key new]
    by (simp add: abn_finish_simps sources_with_acnc)
next
  fix st'
  assume step: "abn_step acnc_by_abn nsw_by_name now st r = Inr st'"
  let ?goal = "\<exists>mr. merged st' = merged st @ [mr] \<and>
                 (has_source mr ''acnc'' \<longleftrightarrow> acnc_by_abn k \<noteq> None) \<and>
                 (has_source mr ''nsw'' \<longleftrightarrow>
                    (\<exists>a clean. acnc_by_abn k = Some a \<and> truthy (dget a ''legal_name'') \<and>
                       strip_upper (dget a ''legal_name'') = Inr clean \<and>
                       nsw_by_name clean \<noteq> None)) \<and>
                 all_source_matches (stats st') = all_source_matches (stats st) +
                    (if has_source mr ''acnc'' \<and> has_source mr ''nsw'' then 1 else 0) \<and>
                 abn_only (stats st') = abn_only (stats st) +
                    (if \<not> has_source mr ''acnc'' \<and> \<not> has_source mr ''nsw'' then 1 else 0) \<and>
                 abn_acnc_matches (stats st') = abn_acnc_matches (stats st) +
                    (if has_source mr ''acnc'' then 1 else 0)"
  show ?goal
  proof (cases "acnc_by_abn k")
    case None
    from step show ?thesis
      unfolding abn_step_unmatched[of r k st acnc_by_abn, OF abn key new None]
      by (intro exI[of _ "abn_merged_record r (now (length (merged st)))"])
         (auto simp: abn_finish_simps has_source_def abn_merged_record_sources None)
  next
    case (Some a)
    show ?thesis
    proof (cases "truthy (dget a ''legal_name'')")
      case False
      then have nt: "\<not> truthy (dget a ''legal_name'') \<or>
         (\<exists>clean. strip_upper (dget a ''legal_name'') = Inr clean \<and> nsw_by_name clean = None)"
        by simp
      from step show ?thesis
        unfolding abn_step_acnc_only[of r k st acnc_by_abn a, OF abn key new Some nt]
        by (intro exI[of _ "sources_append (dict_update
              (abn_merged_record r (now (length (merged st)))) (acnc_fields a)) ''acnc''"])
           (auto simp: abn_finish_simps has_source_def sources_with_acnc Some False)
    next
      case True
      show ?thesis
      proof (cases "strip_upper (dget a ''legal_name'')")
        case (Inl e)
        from step show ?thesis
          unfolding abn_step_raises[of r k st acnc_by_abn a, OF abn key new Some True Inl] by simp
      next
        case (Inr clean)
        show ?thesis
        proof (cases "nsw_by_name clean")
          case None
          then have nt: "\<not> truthy (dget a ''legal_name'') \<or>
             (\<exists>clean. strip_upper (dget a ''legal_name'') = Inr clean \<and> nsw_by_name clean = None)"
            using Inr by blast
          from step show ?thesis
            unfolding abn_step_acnc_only[of r k st acnc_by_abn a, OF abn key new \<open>acnc_by_abn k = Some a\<close> nt]
            by (intro exI[of _ "sources_append (dict_update
                  (abn_merged_record r (now (length (merged st)))) (acnc_fields a)) ''acnc''"])
               (auto simp: abn_finish_simps has_source_def sources_with_acnc
                  \<open>acnc_by_abn k = Some a\<close> Inr None)
        next
          case (Some n)
          from step show ?thesis
            unfolding abn_step_all_sources[of r k st acnc_by_abn a clean nsw_by_name n,
                OF abn key new \<open>acnc_by_abn k = Some a\<close> True Inr Some]
            by (intro exI[of _ "sources_append (dict_update
                  (sources_append (dict_update
                    (abn_merged_record r (now (length (merged st)))) (acnc_fields a)) ''acnc'')
                  (nsw_fields n)) ''nsw''"])
               (auto simp: abn_finish_simps has_source_def sources_with_acnc_nsw
                  \<open>acnc_by_abn k = Some a\<close> True Inr Some)
        qed
      qed
    qed
  qed
qed

text \<open>
  The statement at a primary record 1 whose secondary record carries the legal name X,
  with an empty tertiary lookup.
\<close>

theorem abn_step_counters_witness:
  "truthy (dget [(''abn'', PStr ''1'')] ''abn'') \<and>
   py_key (dget [(''abn'', PStr ''1'')] ''abn'') = Inr (KStr ''1'') \<and>
   KStr ''1'' \<notin> processed_abns (init_state [[(''abn'', PStr ''1'')]] [] []) \<and>
   (\<exists>st' mr.
      abn_step [KStr ''1'' \<mapsto> [(''abn'', PStr ''1''), (''legal_name'', PStr ''X'')]] Map.empty
        sample_clock (init_state [[(''abn'', PStr ''1'')]] [] []) [(''abn'', PStr ''1'')] = Inr st' \<and>
      merged st' = [mr] \<and>
      dget mr ''sources'' = PList [PStr ''abn'', PStr ''acnc''] \<and>
      all_source_matches (stats st') = 0 \<and>
      abn_only (stats st') = 0 \<and>
      abn_acnc_matches (stats st') = 1)"
proof -
  let ?r = "[(''abn'', PStr ''1'')]"
  let ?a = "[(''abn'', PStr ''1''), (''legal_name'', PStr ''X'')]"
  let ?st = "init_state [[(''abn'', PStr ''1'')]] [] []"
  let ?A = "[KStr ''1'' \<mapsto> ?a]"
  have h1: "truthy (dget ?r ''abn'')" by (simp add: dget_Cons)
  have h2: "py_key (dget ?r ''abn'') = Inr (KStr ''1'')" by (simp add: dget_Cons)
  have h3: "KStr ''1'' \<notin> processed_abns ?st" by (simp add: init_state_def)
  have m: "?A (KStr ''1'') = Some ?a \<and>
       (\<not> truthy (dget ?a ''legal_name'') \<or>
        (\<exists>clean. strip_upper (dget ?a ''legal_name'') = Inr clean \<and> Map.empty clean = None))"
    by (simp add: dget_Cons)
  from abn_step_counters[of ?r "KStr ''1''" ?st ?A Map.empty sample_clock, OF h1 h2 h3] m
  obtain st' mr where
    "abn_step ?A Map.empty sample_clock ?st ?r = Inr st'"
    "merged st' = merged ?st @ [mr]"
    "dget mr ''sources'' = PList [PStr ''abn'', PStr ''acnc'']"
    "all_source_matches (stats st') = all_source_matches (stats ?st)"
    "abn_only (stats st') = abn_only (stats ?st)"
    "abn_acnc_matches (stats st') = abn_acnc_matches (stats ?st) + 1"
    by blast
  then have "abn_step ?A Map.empty sample_clock ?st ?r = Inr st' \<and>
      merged st' = [mr] \<and>
      dget mr ''sources'' = PList [PStr ''abn'', PStr ''acnc''] \<and>
      all_source_matches (stats st') = 0 \<and>
      abn_only (stats st') = 0 \<and>
      abn_acnc_matches (stats st') = 1"
    by (simp add: init_state_def)
  with h1 h2 h3 show ?thesis by blast
qed

section \<open>Conservation\<close>

text \<open>
  C5. On well-typed inputs \<open>merge_organization_records\<close> returns. Whenever it returns the
  records \<open>recs\<close> and the statistics \<open>s\<close>, with \<open>st1\<close>, \<open>st2\<close> and \<open>st3\<close> the
  states after the three loops: the second loop appends \<open>r2\<close> and the third appends
  \<open>r3\<close> to the records of the first, \<open>merged_records\<close> is the length of \<open>recs\<close>,
  which is the sum of the numbers of records appended by the three loops, and the number
  of records of the first loop is
  \<open>abn_only + (abn_acnc_matches - all_source_matches) + all_source_matches\<close>, where
  \<open>all_source_matches\<close> does not exceed \<open>abn_acnc_matches\<close>.
\<close>

theorem merge_conservation:
  "(well_typed_inputs a c n \<longrightarrow>
      (\<exists>recs s. merge_organization_records now a c n = Inr (recs, s))) \<and>
   (\<forall>recs s. merge_organization_records now a c n = Inr (recs, s) \<longrightarrow>
      (\<exists>abn_by_abn acnc_by_abn nsw_by_name st1 st2 st3 r2 r3.
         run_loop by_abn_step Map.empty a = Inr abn_by_abn \<and>
         run_loop by_abn_step Map.empty c = Inr acnc_by_abn \<and>
         run_loop by_name_step Map.empty n = Inr nsw_by_name \<and>
         run_loop (abn_step acnc_by_abn nsw_by_name now) (init_state a c n) a = Inr st1 \<and>
         run_loop (acnc_step nsw_by_name now) st1 c = Inr st2 \<and>
         run_loop (nsw_step now) st2 n = Inr st3 \<and>
         merged st2 = merged st1 @ r2 \<and> merged st3 = merged st2 @ r3 \<and>
         recs = merged st1 @ r2 @ r3 \<and>
         merged_records s = length recs \<and>
         length recs = length (merged st1) + length r2 + length r3 \<and>
         all_source_matches s \<le> abn_acnc_matches s \<and>
         length (merged st1) =
           abn_only s + (abn_acnc_matches s - all_source_matches s) + all_source_matches s))"
  using merge_returns[of a c n now] conservation_of_passes[of now a c n] by blast

text \<open>The statement at one primary, one secondary and one tertiary record.\<close>

theorem merge_conservation_witness:
  "well_typed_inputs
     [[(''abn'', PStr ''1'')]]
     [[(''abn'', PStr ''1''), (''legal_name'', PStr ''X'')]]
     [[(''name'', PStr ''X'')]] \<and>
   (\<exists>recs s.
      merge_organization_records sample_clock
        [[(''abn'', PStr ''1'')]]
        [[(''abn'', PStr ''1''), (''legal_name'', PStr ''X'')]]
        [[(''name'', PStr ''X'')]] = Inr (recs, s) \<and>
      merged_records s = length recs \<and>
      all_source_matches s \<le> abn_acnc_matches s)"
proof -
  have wt: "well_typed_inputs
     [[(''abn'', PStr ''1'')]]
     [[(''abn'', PStr ''1''), (''legal_name'', PStr ''X'')]]
     [[(''name'', PStr ''X'')]]"
    by (simp add: well_typed_inputs_def hashable_def dget_Cons)
  note T = merge_conservation[of "[[(''abn'', PStr ''1'')]]"
     "[[(''abn'', PStr ''1''), (''legal_name'', PStr ''X'')]]"
     "[[(''name'', PStr ''X'')]]" sample_clock]
  from T wt obtain recs s where m: "merge_organization_records sample_clock
        [[(''abn'', PStr ''1'')]]
        [[(''abn'', PStr ''1''), (''legal_name'', PStr ''X'')]]
        [[(''name'', PStr ''X'')]] = Inr (recs, s)" by blast
  with T have "merged_records s = length recs \<and> all_source_matches s \<le> abn_acnc_matches s"
    by blast
  with wt m show ?thesis by blast
qed

section \<open>Scenario A\<close>

text \<open>
  C6. For the primary record with \<open>abn\<close> 1, the secondary record with \<open>abn\<close> 1 and
  \<open>legal_name\<close> X, and the tertiary record with \<open>name\<close> X,
  \<open>merge_organization_records\<close> returns exactly one record, its sources are
  \<open>['abn', 'acnc', 'nsw']\<close>, and \<open>all_source_matches\<close> is 1, whatever the clock reads.
\<close>

theorem merge_scenario_a:
  "\<exists>merged_record s.
     merge_organization_records now
       [[(''abn'', PStr ''1'')]]
       [[(''abn'', PStr ''1''), (''legal_name'', PStr ''X'')]]
       [[(''name'', PStr ''X'')]] = Inr ([merged_record], s) \<and>
     dget merged_record ''sources'' = PList [PStr ''abn'', PStr ''acnc'', PStr ''nsw''] \<and>
     all_source_matches s = 1"
  by (simp add: merge_eval clean_X sources_with_acnc_nsw)

text \<open>The scenario at a fixed clock.\<close>

theorem merge_scenario_a_witness:
  "\<exists>merged_record s.
     merge_organization_records sample_clock
       [[(''abn'', PStr ''1'')]]
       [[(''abn'', PStr ''1''), (''legal_name'', PStr ''X'')]]
       [[(''name'', PStr ''X'')]] = Inr ([merged_record], s) \<and>
     dget merged_record ''sources'' = PList [PStr ''abn'', PStr ''acnc'', PStr ''nsw''] \<and>
     all_source_matches s = 1"
  by (rule merge_scenario_a[of sample_clock])

section \<open>Secondary records without a name\<close>

text \<open>
  C7. In the second loop, a secondary record whose identifier is not yet processed and
  whose \<open>legal_name\<close> is empty or missing produces one record with the sources
  \<open>['acnc']\<close> and all tertiary fields \<open>None\<close>, adds one to \<open>acnc_only\<close>, and leaves
  \<open>acnc_nsw_matches\<close> and the consumed names as they are, for every tertiary lookup and
  so also for one that holds a record under the normalized form of the empty name.
\<close>

theorem acnc_step_empty_name:
  assumes "truthy (dget r ''abn'')" and "py_key (dget r ''abn'') = Inr k"
    and "k \<notin> processed_abns st" and "\<not> truthy (dget r ''legal_name'')"
  shows "\<exists>st' mr. acnc_step nsw_by_name now st r = Inr st' \<and>
           merged st' = merged st @ [mr] \<and>
           acnc_only (stats st') = acnc_only (stats st) + 1 \<and>
           acnc_nsw_matches (stats st') = acnc_nsw_matches (stats st) \<and>
           processed_nsw_names st' = processed_nsw_names st \<and>
           dget mr ''sources'' = PList [PStr ''acnc''] \<and>
           \<not> has_source mr ''nsw'' \<and>
           list_all (\<lambda>f. dget mr f = PNone)
             [''nsw_organisation_number'', ''nsw_name'', ''nsw_organisation_type'', ''nsw_status'',
              ''nsw_date_registered'', ''nsw_date_removed'', ''nsw_registered_office_address'',
              ''nsw_organisation_id'']"
  using assms acnc_nsw_fields_none[of "dget r ''abn''" r "now (length (merged st))"]
  by (simp add: acnc_step_def Let_def acnc_merged_record_sources has_source_def)

text \<open>
  The statement at a secondary record with the empty legal name, where the tertiary
  lookup holds a record whose blank name normalizes to the empty string.
\<close>

theorem acnc_step_empty_name_witness:
  "truthy (dget [(''abn'', PStr ''2''), (''legal_name'', PStr [])] ''abn'') \<and>
   py_key (dget [(''abn'', PStr ''2''), (''legal_name'', PStr [])] ''abn'') = Inr (KStr ''2'') \<and>
   KStr ''2'' \<notin> processed_abns (init_state [] [] []) \<and>
   \<not> truthy (dget [(''abn'', PStr ''2''), (''legal_name'', PStr [])] ''legal_name'') \<and>
   strip_upper (PStr ''  '') = Inr [] \<and>
   (\<exists>st' mr.
      acnc_step [[] \<mapsto> [(''name'', PStr ''  '')]] sample_clock (init_state [] [] [])
        [(''abn'', PStr ''2''), (''legal_name'', PStr [])] = Inr st' \<and>
      merged st' = [mr] \<and>
      acnc_only (stats st') = 1 \<and>
      acnc_nsw_matches (stats st') = 0 \<and>
      \<not> has_source mr ''nsw'')"
proof -
  let ?r = "[(''abn'', PStr ''2''), (''legal_name'', PStr [])]"
  let ?st = "init_state [] [] []"
  let ?N = "[[] \<mapsto> [(''name'', PStr ''  '')]]"
  have h1: "truthy (dget ?r ''abn'')" by (simp add: dget_Cons)
  have h2: "py_key (dget ?r ''abn'') = Inr (KStr ''2'')" by (simp add: dget_Cons)
  have h3: "KStr ''2'' \<notin> processed_abns ?st" by (simp add: init_state_def)
  have h4: "\<not> truthy (dget ?r ''legal_name'')" by (simp add: dget_Cons)
  have h5: "strip_upper (PStr ''  '') = Inr []" by (simp add: clean_blank)
  from acnc_step_empty_name[of ?r "KStr ''2''" ?st ?N sample_clock, OF h1 h2 h3 h4]
  obtain st' mr where
    "acnc_step ?N sample_clock ?st ?r = Inr st'"
    "merged st' = merged ?st @ [mr]"
    "acnc_only (stats st') = acnc_only (stats ?st) + 1"
    "acnc_nsw_matches (stats st') = acnc_nsw_matches (stats ?st)"
    "\<not> has_source mr ''nsw''"
    by blast
  then have "acnc_step ?N sample_clock ?st ?r = Inr st' \<and>
      merged st' = [mr] \<and>
      acnc_only (stats st') = 1 \<and>
      acnc_nsw_matches (stats st') = 0 \<and>
      \<not> has_source mr ''nsw''"
    by (simp add: init_state_def)
  with h1 h2 h3 h4 h5 show ?thesis by blast
qed

section \<open>The header of the export\<close>

lemma write_rows_prefix: "\<exists>rows. fst (write_rows s j out records) = out @ rows"
proof (induction records arbitrary: out)
  case Nil
  then show ?case by simp
next
  case (Cons r rs)
  show ?case
  proof (cases "list_ex (\<lambda>k. k \<notin> set fieldnames) (map fst r)")
    case True
    then show ?thesis by simp
  next
    case False
    from Cons.IH[of "out @ [csv_row s r]"] obtain rows where
      "fst (write_rows s j (out @ [csv_row s r]) rs) = (out @ [csv_row s r]) @ rows" by blast
    then show ?thesis using False by simp
  qed
qed

lemma fst_write_merged_records_to_csv:
  "fst (write_merged_records_to_csv s j p records filename) =
   fst (write_rows s j [fieldnames] records)"
  by (simp add: write_merged_records_to_csv_def Let_def split: option.splits)

lemma write_one_record:
  assumes "map fst r = fieldnames"
  shows "write_merged_records_to_csv s j p [r] filename =
     ([fieldnames, csv_row s r],
      p (''Successfully wrote '' @ s (PInt 1) @ '' merged records to '' @ filename))"
  using assms by (simp add: write_merged_records_to_csv_def list_ex_iff)

text \<open>
  C8, as the code has it. For every list of records, \<open>write_merged_records_to_csv\<close>
  writes first the header row with the column names \<open>abn\<close>, \<open>is_current\<close>, ...,
  \<open>nsw_organisation_id\<close>, \<open>sources\<close>, \<open>updated_at\<close> in exactly this order; the
  header has 39 columns.
\<close>

theorem csv_header_39_columns:
  "\<exists>rows. fst (write_merged_records_to_csv to_str to_repr printer records filename) =
     [''abn'', ''is_current'', ''replaced_from'', ''entity_status'', ''effective_from'',
      ''effective_to'', ''entity_type_code'', ''entity_type_description'', ''anc_status'',
      ''acnc_status_from'', ''acnc_status_to'', ''record_last_updated'', ''gst'', ''dgr'',
      ''main_trading_names'', ''other_trading_names'', ''main_business_physical_address'',
      ''tax_concession_endorsements'', ''legal_name'', ''other_organisation_names'',
      ''charity_website'', ''date_organisation_established'', ''registration_date'',
      ''charity_size'', ''number_of_responsible_persons'', ''financial_year_end'',
      ''operates_in'', ''areas_of_interest'', ''acnc_address'', ''nsw_organisation_number'',
      ''nsw_name'', ''nsw_organisation_type'', ''nsw_status'', ''nsw_date_registered'',
      ''nsw_date_removed'', ''nsw_registered_office_address'', ''nsw_organisation_id'',
      ''sources'', ''updated_at''] # rows \<and>
     length (hd (fst (write_merged_records_to_csv to_str to_repr printer records filename))) = 39"
proof -
  obtain rows where "fst (write_rows to_str to_repr [fieldnames] records) = [fieldnames] @ rows"
    using write_rows_prefix by blast
  then show ?thesis
    by (simp add: fst_write_merged_records_to_csv fieldnames_def)
qed

text \<open>The header written before one tertiary-only record.\<close>

theorem csv_header_39_columns_witness:
  "length (hd (fst (write_merged_records_to_csv (py_str failing_env) (join_repr failing_env)
       (print_out failing_env)
       [nsw_merged_record [(''name'', PStr ''X'')] (sample_clock 0)] ''merged_records.csv''))) = 39"
  using csv_header_39_columns[of "py_str failing_env" "join_repr failing_env"
       "print_out failing_env"
       "[nsw_merged_record [(''name'', PStr ''X'')] (sample_clock 0)]" "''merged_records.csv''"]
  by blast

text \<open>
  C8, as stated, gives the header 38 columns. The header written for the empty list of
  records does not have 38 columns.
\<close>

theorem csv_header_not_38_columns:
  "\<not> length (hd (fst (write_merged_records_to_csv (py_str failing_env) (join_repr failing_env)
       (print_out failing_env) [] ''merged_records.csv''))) = 38"
  by (simp add: write_merged_records_to_csv_def fieldnames_def)

section \<open>Extraction jobs\<close>

text \<open>
  C10, as the code has it. For every source string, state and postcode, the \<open>try\<close> block
  of \<open>extract_data_for_postcode\<close> raises when the extractor of the source raises, when
  the transformer raises on what the extractor returned, and when the source is none of
  \<open>nsw\<close>, \<open>acnc\<close> and \<open>abn\<close> (\<open>ValueError\<close>). Whenever the block raises and the
  \<open>print\<close> of the handler returns, the function returns the empty list, which is what a
  job without records returns; what the block returns is returned unchanged. The only
  exception that leaves the function is one raised by the \<open>print\<close> of the handler.
\<close>

theorem extract_data_for_postcode_returns_empty:
  "(\<forall>records. extract_try E source state postcode = Inr records \<longrightarrow>
      extract_data_for_postcode E source state postcode = Inr records) \<and>
   (\<forall>e. extract_try E source state postcode = Inl e \<and>
        print_out E (extract_error_message E source state postcode e) = None \<longrightarrow>
      extract_data_for_postcode E source state postcode = Inr []) \<and>
   (\<forall>e'. extract_data_for_postcode E source state postcode = Inl e' \<longrightarrow>
      (\<exists>e. extract_try E source state postcode = Inl e \<and>
           print_out E (extract_error_message E source state postcode e) = Some e')) \<and>
   (\<forall>e. (source = ''nsw'' \<and> nsw_extract E postcode = Inl e) \<or>
        (source = ''acnc'' \<and> acnc_extract E state postcode = Inl e) \<or>
        (source = ''abn'' \<and> abn_extract E state postcode = Inl e) \<longrightarrow>
      extract_try E source state postcode = Inl e) \<and>
   (\<forall>raw_data e.
        (source = ''nsw'' \<and> nsw_extract E postcode = Inr raw_data \<and>
           transform_nsw_assoc_data (clock E) raw_data = Inl e) \<or>
        (source = ''acnc'' \<and> acnc_extract E state postcode = Inr raw_data \<and>
           transform_acnc_data (clock E) raw_data = Inl e) \<or>
        (source = ''abn'' \<and> abn_extract E state postcode = Inr raw_data \<and>
           transform_abn_data (clock E) raw_data = Inl e) \<longrightarrow>
      extract_try E source state postcode = Inl e) \<and>
   (source \<noteq> ''nsw'' \<and> source \<noteq> ''acnc'' \<and> source \<noteq> ''abn'' \<longrightarrow>
      extract_try E source state postcode = Inl (ValueError ''Invalid source''))"
proof (intro conjI allI impI)
  fix records
  assume "extract_try E source state postcode = Inr records"
  then show "extract_data_for_postcode E source state postcode = Inr records"
    by (simp add: extract_data_for_postcode_def)
next
  fix e
  assume "extract_try E source state postcode = Inl e \<and>
        print_out E (extract_error_message E source state postcode e) = None"
  then show "extract_data_for_postcode E source state postcode = Inr []"
    by (simp add: extract_data_for_postcode_def)
next
  fix e'
  assume "extract_data_for_postcode E source state postcode = Inl e'"
  then show "\<exists>e. extract_try E source state postcode = Inl e \<and>
           print_out E (extract_error_message E source state postcode e) = Some e'"
    by (auto simp: extract_data_for_postcode_def split: sum.splits option.splits)
next
  fix e
  assume "(source = ''nsw'' \<and> nsw_extract E postcode = Inl e) \<or>
        (source = ''acnc'' \<and> acnc_extract E state postcode = Inl e) \<or>
        (source = ''abn'' \<and> abn_extract E state postcode = Inl e)"
  then show "extract_try E source state postcode = Inl e"
    by (auto simp: extract_try_def)
next
  fix raw_data e
  assume "(source = ''nsw'' \<and> nsw_extract E postcode = Inr raw_data \<and>
           transform_nsw_assoc_data (clock E) raw_data = Inl e) \<or>
        (source = ''acnc'' \<and> acnc_extract E state postcode = Inr raw_data \<and>
           transform_acnc_data (clock E) raw_data = Inl e) \<or>
        (source = ''abn'' \<and> abn_extract E state postcode = Inr raw_data \<and>
           transform_abn_data (clock E) raw_data = Inl e)"
  then show "extract_try E source state postcode = Inl e"
    by (auto simp: extract_try_def)
next
  assume "source \<noteq> ''nsw'' \<and> source \<noteq> ''acnc'' \<and> source \<noteq> ''abn''"
  then show "extract_try E source state postcode = Inl (ValueError ''Invalid source'')"
    by (simp add: extract_try_def)
qed

text \<open>
  The statement at the failing query of the business register and at an unknown source,
  where every \<open>print\<close> returns.
\<close>

theorem extract_data_for_postcode_returns_empty_witness:
  "abn_extract failing_env ''NSW'' ''2000'' = Inl (OtherError ''ABR unavailable'') \<and>
   print_out failing_env (extract_error_message failing_env ''abn'' ''NSW'' ''2000''
       (OtherError ''ABR unavailable'')) = None \<and>
   extract_data_for_postcode failing_env ''abn'' ''NSW'' ''2000'' = Inr [] \<and>
   print_out failing_env (extract_error_message failing_env ''xyz'' ''NSW'' ''2000''
       (ValueError ''Invalid source'')) = None \<and>
   extract_data_for_postcode failing_env ''xyz'' ''NSW'' ''2000'' = Inr []"
proof -
  have a: "abn_extract failing_env ''NSW'' ''2000'' = Inl (OtherError ''ABR unavailable'')"
    by (simp add: failing_env_def)
  have p: "print_out failing_env m = None" for m
    by (simp add: failing_env_def)
  note T1 = extract_data_for_postcode_returns_empty[of failing_env "''abn''" "''NSW''" "''2000''"]
  have t1: "extract_try failing_env ''abn'' ''NSW'' ''2000'' = Inl (OtherError ''ABR unavailable'')"
    using T1[THEN conjunct2, THEN conjunct2, THEN conjunct2, THEN conjunct1, rule_format,
             of "OtherError ''ABR unavailable''"] a
    by simp
  have b: "extract_data_for_postcode failing_env ''abn'' ''NSW'' ''2000'' = Inr []"
    using T1[THEN conjunct2, THEN conjunct1, rule_format, of "OtherError ''ABR unavailable''"] t1 p
    by simp
  note T2 = extract_data_for_postcode_returns_empty[of failing_env "''xyz''" "''NSW''" "''2000''"]
  have t2: "extract_try failing_env ''xyz'' ''NSW'' ''2000'' = Inl (ValueError ''Invalid source'')"
    using T2[THEN conjunct2, THEN conjunct2, THEN conjunct2, THEN conjunct2, THEN conjunct2]
    by simp
  have c: "extract_data_for_postcode failing_env ''xyz'' ''NSW'' ''2000'' = Inr []"
    using T2[THEN conjunct2, THEN conjunct1, rule_format, of "ValueError ''Invalid source''"] t2 p
    by simp
  from a b c p show ?thesis by simp
qed

text \<open>
  C10, as stated, lets no exception leave the function. When the standard output cannot
  encode the message of the handler, the failing query of the business register ends in
  the \<open>UnicodeEncodeError\<close> of \<open>print\<close>, and no list is returned.
\<close>

theorem extract_data_for_postcode_print_raises:
  "abn_extract ascii_stdout_env ''NSW'' ''2000'' = Inl (OtherError ''ABR unavailable'') \<and>
   extract_data_for_postcode ascii_stdout_env ''abn'' ''NSW'' ''2000'' = Inl UnicodeEncodeError"
  by (simp add: ascii_stdout_env_def failing_env_def extract_data_for_postcode_def extract_try_def)

section \<open>The statistics of a batch\<close>

text \<open>
  When every \<open>print\<close> returns, every job returns a list, the handler of the collecting
  loop is not entered, and the batch lists no failed postcode, in whatever order the jobs
  complete.
\<close>

lemma extract_data_for_postcode_quiet:
  assumes "\<And>m. print_out E m = None"
  shows "\<exists>records. extract_data_for_postcode E source state postcode = Inr records"
  by (simp add: extract_data_for_postcode_def assms split: sum.splits)

lemma collect_step_quiet:
  assumes "\<And>m. print_out E m = None" and "snd future = Inr records"
  shows "\<exists>c'. collect_step E c future = Inr c' \<and>
           failed_postcodes (pstats c') = failed_postcodes (pstats c)"
  by (simp add: collect_step_def Let_def assms)

lemma run_collect_quiet:
  assumes "\<And>m. print_out E m = None"
    and "\<And>x. x \<in> set futures \<Longrightarrow> \<exists>records. snd x = Inr records"
  shows "\<exists>c'. run_loop (collect_step E) c futures = Inr c' \<and>
           failed_postcodes (pstats c') = failed_postcodes (pstats c)"
  using assms(2)
proof (induction futures arbitrary: c)
  case Nil
  then show ?case by simp
next
  case (Cons x xs)
  from Cons.prems[of x] obtain records where "snd x = Inr records" by auto
  from collect_step_quiet[OF assms(1) this, of c] obtain c1 where
    c1: "collect_step E c x = Inr c1" "failed_postcodes (pstats c1) = failed_postcodes (pstats c)"
    by blast
  have "\<exists>c'. run_loop (collect_step E) c1 xs = Inr c' \<and>
           failed_postcodes (pstats c') = failed_postcodes (pstats c1)"
    by (rule Cons.IH) (use Cons.prems in auto)
  then show ?case using c1 by simp
qed

lemma collect_batch_quiet:
  assumes "\<And>m. print_out E m = None"
  shows "\<exists>c. collect_batch E state_upper postcodes = Inr c \<and> failed_postcodes (pstats c) = []"
proof -
  let ?c0 = "\<lparr>all_abn_records = [], all_acnc_records = [], all_nsw_records = [],
               pstats = \<lparr>total_postcodes = length postcodes, processed_postcodes = 0,
                         failed_postcodes = [], by_postcode = Map.empty\<rparr>\<rparr>"
  let ?futures = "map (\<lambda>job. (job, extract_data_for_postcode E (fst job) state_upper (snd job)))
                         (as_completed E (submitted_jobs postcodes))"
  have "\<exists>c'. run_loop (collect_step E) ?c0 ?futures = Inr c' \<and>
           failed_postcodes (pstats c') = failed_postcodes (pstats ?c0)"
    by (rule run_collect_quiet[OF assms]) (use extract_data_for_postcode_quiet[OF assms] in auto)
  then obtain c' where "run_loop (collect_step E) ?c0 ?futures = Inr c'"
    "failed_postcodes (pstats c') = []" by auto
  then show ?thesis by (simp add: collect_batch_def Let_def)
qed

text \<open>
  A job that raises, which only the \<open>print\<close> of its handler can make it do, is listed
  as failed when the handler of the collecting loop can print.
\<close>

lemma collect_step_lists_failure:
  assumes "snd future = Inl e"
    and "print_out E (''Failed to extract '' @ fst (fst future) @ '' data for '' @
           snd (fst future) @ '': '' @ exn_str E e) = None"
  shows "\<exists>c'. collect_step E c future = Inr c' \<and>
           snd (fst future) \<in> set (failed_postcodes (pstats c'))"
  using assms by (simp add: collect_step_def record_failure_def Let_def)

text \<open>The batch of the two stored postcodes.\<close>

lemma sort_postcodes: "sort [''2001'', ''2000''] = [''2000'', ''2001'']"
  by (simp add: less_eq_char_def less_char_def)

lemma load_failing_env: "load_postcodes_for_state failing_env ''NSW'' = Inr [''2000'', ''2001'']"
  by (simp add: load_postcodes_for_state_def load_postcodes_try_def failing_env_def upper_NSW
      List.map_filter_def sort_postcodes)

lemma transform_one: "transform_nsw_assoc_data now (PList [PDict d]) = Inr [nsw_item d (now 0)]"
  by (simp add: transform_nsw_assoc_data_def transform_loop_def)

lemma transform_none:
  "transform_nsw_assoc_data now (PList []) = Inr []"
  "transform_acnc_data now (PList []) = Inr []"
  "transform_abn_data now (PList []) = Inr []"
  by (simp_all add: transform_nsw_assoc_data_def transform_acnc_data_def transform_abn_data_def
      transform_loop_def)

lemma print_failing_env: "print_out failing_env m = None"
  by (simp add: failing_env_def)

lemma jobs_failing_env:
  "map (\<lambda>job. (job, extract_data_for_postcode failing_env (fst job) ''NSW'' (snd job)))
       (as_completed failing_env (submitted_jobs [''2000'', ''2001''])) =
   [((''abn'', ''2000''), Inr []), ((''acnc'', ''2000''), Inr []), ((''nsw'', ''2000''), Inr []),
    ((''abn'', ''2001''), Inr []), ((''acnc'', ''2001''), Inr []),
    ((''nsw'', ''2001''), Inr [nsw_item [(''name'', PStr ''X'')] (sample_clock 0)])]"
  by (simp add: submitted_jobs_def failing_env_def extract_data_for_postcode_def extract_try_def
      transform_one transform_none)

lemma collect_failing_env:
  "\<exists>c. collect_batch failing_env ''NSW'' [''2000'', ''2001''] = Inr c \<and>
     all_abn_records c = [] \<and>
     all_acnc_records c = [] \<and>
     all_nsw_records c = [nsw_item [(''name'', PStr ''X'')] (sample_clock 0)] \<and>
     failed_postcodes (pstats c) = [] \<and>
     processed_postcodes (pstats c) = 1 \<and>
     by_postcode (pstats c) ''2000'' =
       Some \<lparr>abn_count = 0, acnc_count = 0, nsw_count = 0, total_count = 0\<rparr> \<and>
     by_postcode (pstats c) ''2001'' =
       Some \<lparr>abn_count = 0, acnc_count = 0, nsw_count = 1, total_count = 1\<rparr>"
  unfolding collect_batch_def Let_def jobs_failing_env
  by (simp add: collect_step_def Let_def print_failing_env)

lemma nsw_item_name: "dget (nsw_item d ts) ''name'' = dget d ''name''"
  by (simp add: nsw_item_def dget_Cons)

lemma merge_failing_env:
  "merge_organization_records now [] [] [nsw_item [(''name'', PStr ''X'')] ts] =
     Inr ([nsw_merged_record (nsw_item [(''name'', PStr ''X'')] ts) (now 0)],
          \<lparr>total_abn_records = 0, total_acnc_records = 0, total_nsw_records = 1,
           merged_records = 1, abn_only = 0, acnc_only = 0, nsw_only = 1,
           abn_acnc_matches = 0, acnc_nsw_matches = 0, all_source_matches = 0\<rparr>)"
  by (simp add: merge_eval nsw_item_name clean_X)

text \<open>
  C3. The property: a postcode is in \<open>failed_postcodes\<close> exactly when one of its three
  jobs failed, and it counts as processed exactly when its total over the three sources
  is positive. With two postcodes and three sources, where only the query of the business
  register for postcode 2000 fails and every \<open>print\<close> returns, \<open>sync_all_sources\<close>
  answers 200 with an empty \<open>failed_postcodes\<close>: the failure does not reach the
  collecting loop, because \<open>extract_data_for_postcode\<close> has turned it into an empty list,
  and postcode 2000 is reported with zero records instead. The rest holds on this input:
  one postcode is processed, the counts of postcode 2001 are those of its own jobs, and
  the merge runs on the one record collected.
\<close>

theorem sync_failed_job_not_listed:
  "abn_extract failing_env ''NSW'' ''2000'' = Inl (OtherError ''ABR unavailable'') \<and>
   (\<exists>r events. sync_all_sources failing_env ''nsw'' = (Response 200 (SyncResult r), events) \<and>
      failed_postcodes (resp_postcode_stats r) = [] \<and>
      processed_postcodes (resp_postcode_stats r) = 1 \<and>
      by_postcode (resp_postcode_stats r) ''2000'' =
        Some \<lparr>abn_count = 0, acnc_count = 0, nsw_count = 0, total_count = 0\<rparr> \<and>
      by_postcode (resp_postcode_stats r) ''2001'' =
        Some \<lparr>abn_count = 0, acnc_count = 0, nsw_count = 1, total_count = 1\<rparr> \<and>
      nsw_only (resp_merge_stats r) = 1 \<and>
      resp_total_merged_records r = 1 \<and>
      Merge \<in> set events)"
proof -
  have e: "cache_get failing_env ''sync_all_NSW'' = PNone" "clock failing_env = sample_clock"
    "upsert_organizations failing_env = (\<lambda>records. Inr (PList []))"
    by (simp_all add: failing_env_def)
  have a: "abn_extract failing_env ''NSW'' ''2000'' = Inl (OtherError ''ABR unavailable'')"
    by (simp add: failing_env_def)
  from collect_failing_env obtain c where
    c: "collect_batch failing_env ''NSW'' [''2000'', ''2001''] = Inr c"
      "all_abn_records c = []" "all_acnc_records c = []"
      "all_nsw_records c = [nsw_item [(''name'', PStr ''X'')] (sample_clock 0)]"
      "failed_postcodes (pstats c) = []" "processed_postcodes (pstats c) = 1"
      "by_postcode (pstats c) ''2000'' =
         Some \<lparr>abn_count = 0, acnc_count = 0, nsw_count = 0, total_count = 0\<rparr>"
      "by_postcode (pstats c) ''2001'' =
         Some \<lparr>abn_count = 0, acnc_count = 0, nsw_count = 1, total_count = 1\<rparr>"
    by blast
  show ?thesis
    by (simp add: a sync_all_sources_def Let_def upper_NSW e c load_failing_env print_failing_env
        merge_failing_env load_merged_def write_one_record keys_nsw_merged_record)
qed

section \<open>States without postcodes\<close>

text \<open>
  C9, as the code has it. For every state with no postcodes stored and no cached result
  of an earlier synchronisation, \<open>sync_all_sources\<close> answers 404 with the message of the
  \<open>KeyError\<close> raised by \<open>load_postcodes_for_state\<close>, and its trace is empty: no job is
  submitted, no merge runs, nothing is written.
\<close>

theorem sync_all_sources_not_found:
  assumes "\<not> truthy (cache_get E (''postcodes:'' @ py_upper state))"
    and "\<not> truthy (cache_get E (''sync_all_'' @ py_upper state))"
  shows "sync_all_sources E state =
     (Response 404 (Json (PDict [
        (''error'', PStr (exn_str E (KeyError (''Error loading postcodes for '' @ py_upper state @ '': '' @
            exn_str E (KeyError (''No postcodes found for '' @ py_upper state @
              ''. Please upload them first.'')))))),
        (''suggestion'', PStr (''Upload postcodes for '' @ state @ '' using /upload/postcodes/'' @ state)),
        (''status'', PStr ''failed'')])), [])"
  using assms
  by (simp add: sync_all_sources_def Let_def load_postcodes_for_state_def load_postcodes_try_def
      py_upper_idem error_response_def)

text \<open>The statement at a state for which the cache holds nothing.\<close>

theorem sync_all_sources_not_found_witness:
  "\<not> truthy (cache_get (failing_env\<lparr>cache_get := (\<lambda>key. PNone)\<rparr>) (''postcodes:'' @ py_upper ''VIC'')) \<and>
   \<not> truthy (cache_get (failing_env\<lparr>cache_get := (\<lambda>key. PNone)\<rparr>) (''sync_all_'' @ py_upper ''VIC'')) \<and>
   status_code (fst (sync_all_sources (failing_env\<lparr>cache_get := (\<lambda>key. PNone)\<rparr>) ''VIC'')) = 404 \<and>
   snd (sync_all_sources (failing_env\<lparr>cache_get := (\<lambda>key. PNone)\<rparr>) ''VIC'') = []"
  using sync_all_sources_not_found[of "failing_env\<lparr>cache_get := (\<lambda>key. PNone)\<rparr>" "''VIC''"]
  by simp

text \<open>
  C9, as stated, promises the 404 for every state with no postcodes stored. The handler
  reads the cached result first: with a cached result and no postcodes stored it answers
  200.
\<close>

theorem sync_all_sources_cached_without_postcodes:
  "\<not> (\<not> truthy (cache_get cached_env (''postcodes:'' @ py_upper ''NSW'')) \<longrightarrow>
       status_code (fst (sync_all_sources cached_env ''NSW'')) = 404)"
  by (simp add: sync_all_sources_def Let_def upper_NSW cached_env_def)

end
